theory Spec2Isabelle
  imports Complex_Main
begin

section \<open>Shared data: backend tables, browser effects\<close>

text \<open>
  The application is a browser front end over a hosted backend. The backend's tables
  are lists of rows, the storage bucket \<open>content-files\<close> is an association list from
  object path to blob, and the effects a handler has on the browser (toasts, files
  saved by \<open>pdf.save\<close>, \<open>console.error\<close>) are lists that grow at the end.
  Whether a backend call fails for a reason outside the program (network, policy)
  is an input of each handler, its environment record.
\<close>

datatype error = StorageFault | ObjectExists | DatabaseFault | NotNullViolation

datatype toast = ToastSuccess string | ToastError string

text \<open>A row of \<open>student_courses\<close> (types.ts, \<open>student_courses.Row\<close>).\<close>

record enrollment =
  sc_id :: string
  sc_student_id :: string
  sc_subject_id :: string
  sc_progress :: "int option"
  sc_completed :: "bool option"
  sc_completed_at :: "string option"
  sc_certificate_url :: "string option"

text \<open>A row of \<open>assignment_submissions\<close>; \<open>grade\<close> is \<open>numeric\<close>, timestamps are instants.\<close>

record submission_row =
  as_id :: string
  as_assignment_id :: string
  as_student_id :: string
  as_submission_text :: "string option"
  as_submitted_at :: "nat option"
  as_grade :: "rat option"
  as_feedback :: "string option"
  as_graded_at :: "nat option"
  as_graded_by :: "string option"
  as_status :: "string option"
  as_is_late :: bool

text \<open>
  A row of \<open>assignments\<close>, with the columns the grading queue reads. A submission's
  \<open>assignment_id\<close> and \<open>student_id\<close> are \<open>NOT NULL\<close> foreign keys, so the
  world below gives the referenced assignment and the student's profile name as total
  functions of the key.
\<close>

record assignment_row =
  a_id :: string
  a_title :: string
  a_points :: rat

text \<open>A row of \<open>notifications\<close>; \<open>user_id\<close> is \<open>NOT NULL\<close> in the migration.\<close>

record notification =
  n_user_id :: string
  n_type :: string
  n_title :: string
  n_message :: string
  n_link :: "string option"

text \<open>The rendered certificate: the strings drawn by \<open>pdf.text\<close>, each with its height.\<close>

type_synonym pdf = "(string \<times> nat) list"

record world =
  student_courses :: "enrollment list"
  assignment_submissions :: "submission_row list"
  assignment_of :: "string \<Rightarrow> assignment_row"
  full_name_of :: "string \<Rightarrow> string"
  notifications :: "notification list"
  storage :: "(string \<times> pdf) list"
  downloads :: "(string \<times> pdf) list"
  toasts :: "toast list"
  console :: "error list"

definition toast_success :: "string \<Rightarrow> world \<Rightarrow> world" where
  "toast_success m w = w\<lparr>toasts := toasts w @ [ToastSuccess m]\<rparr>"

definition toast_error :: "string \<Rightarrow> world \<Rightarrow> world" where
  "toast_error m w = w\<lparr>toasts := toasts w @ [ToastError m]\<rparr>"

definition console_error :: "error \<Rightarrow> world \<Rightarrow> world" where
  "console_error e w = w\<lparr>console := console w @ [e]\<rparr>"

section \<open>Strings\<close>

text \<open>
  Characters are read as code units below 256. \<open>is_space\<close> is the class \<open>\s\<close> of
  the regular expression on them: tab, line feed, vertical tab, form feed, carriage
  return, space and the no-break space.
\<close>

definition is_space :: "char \<Rightarrow> bool" where
  "is_space c = (of_char c \<in> {9, 10, 11, 12, 13, 32, 160 :: nat})"

text \<open>\<open>s.replace(/\s+/g, "-")\<close>: every maximal run of white space becomes one dash.\<close>

function replace_ws :: "string \<Rightarrow> string" where
  "replace_ws [] = []"
| "replace_ws (c # cs) =
     (if is_space c then CHR ''-'' # replace_ws (dropWhile is_space cs)
      else c # replace_ws cs)"
  by pat_completeness auto
termination
  by (relation "measure length") (auto simp: le_imp_less_Suc length_dropWhile_le)

text \<open>The decimal text of a non-negative integer, as a template literal prints it.\<close>

definition digit_char :: "nat \<Rightarrow> char" where
  "digit_char d = ''0123456789'' ! d"

function show_nat :: "nat \<Rightarrow> string" where
  "show_nat n = (if n < 10 then [digit_char n] else show_nat (n div 10) @ [digit_char (n mod 10)])"
  by pat_completeness auto
termination
  by (relation "measure id") auto

declare show_nat.simps [simp del]

section \<open>Certificate issuance (CertificateGenerator.tsx)\<close>

record CertificateData =
  studentName :: string
  courseName :: string
  completionDate :: string
  courseId :: string
  studentId :: string

text \<open>
  What one run of \<open>generateCertificate\<close> reads from outside: \<open>Date.now()\<close>, the
  locale formatting of the date, the storage service's public URL of a path, and
  whether the upload or the row update fails in the backend.
\<close>

record cert_env =
  now :: nat
  toLocaleDateString :: "string \<Rightarrow> string"
  getPublicUrl :: "string \<Rightarrow> string"
  upload_fault :: "error option"
  update_fault :: "error option"

definition render :: "cert_env \<Rightarrow> CertificateData \<Rightarrow> pdf" where
  "render env d =
     [(''CERTIFICATE'', 55),
      (''of Course Completion'', 68),
      (''This certifies that'', 85),
      (studentName d, 100),
      (''has successfully completed the course'', 115),
      (courseName d, 130),
      (''Completion Date: '' @ toLocaleDateString env (completionDate d), 145),
      (''Rwanda Secondary Education Online Learning Platform'', 175),
      (''Authorized Signature'', 170)]"

definition fileName :: "cert_env \<Rightarrow> CertificateData \<Rightarrow> string" where
  "fileName env d =
     ''certificate-'' @ replace_ws (courseName d) @ ''-'' @ show_nat (now env) @ ''.pdf''"

text \<open>The object path \<open>certificates/${studentId}/${fileName}\<close>, used for the upload and the URL.\<close>

definition certificate_path :: "string \<Rightarrow> string \<Rightarrow> string" where
  "certificate_path sid name = ''certificates/'' @ sid @ ''/'' @ name"

text \<open>
  \<open>storage.upload(path, blob, {upsert: false})\<close>: a backend fault, or an object already
  at the path, is returned as the error and nothing is stored.
\<close>

definition storage_upload :: "cert_env \<Rightarrow> string \<Rightarrow> pdf \<Rightarrow> world \<Rightarrow> error option \<times> world" where
  "storage_upload env path blob w =
     (case upload_fault env of
        Some e \<Rightarrow> (Some e, w)
      | None \<Rightarrow>
          if path \<in> fst ` set (storage w) then (Some ObjectExists, w)
          else (None, w\<lparr>storage := storage w @ [(path, blob)]\<rparr>))"

text \<open>
  \<open>from("student_courses").update({certificate_url}).eq("student_id", s).eq("subject_id", c)\<close>
\<close>

definition update_certificate_url ::
  "cert_env \<Rightarrow> string \<Rightarrow> string \<Rightarrow> string \<Rightarrow> world \<Rightarrow> error option \<times> world" where
  "update_certificate_url env url sid cid w =
     (case update_fault env of
        Some e \<Rightarrow> (Some e, w)
      | None \<Rightarrow>
          (None, w\<lparr>student_courses :=
             map (\<lambda>r. if sc_student_id r = sid \<and> sc_subject_id r = cid
                       then r\<lparr>sc_certificate_url := Some url\<rparr> else r)
                 (student_courses w)\<rparr>))"

definition pdf_save :: "string \<Rightarrow> pdf \<Rightarrow> world \<Rightarrow> world" where
  "pdf_save name blob w = w\<lparr>downloads := downloads w @ [(name, blob)]\<rparr>"

text \<open>The body of the \<open>try\<close> block: \<open>Inl e\<close> is \<open>throw e\<close>, \<open>Inr url\<close> is \<open>return url\<close>.\<close>

definition certificate_try ::
  "cert_env \<Rightarrow> CertificateData \<Rightarrow> pdf \<Rightarrow> string \<Rightarrow> world \<Rightarrow> (error + string) \<times> world" where
  "certificate_try env d pdfBlob name w =
     (let path = certificate_path (studentId d) name in
      case storage_upload env path pdfBlob w of
        (Some uploadError, w1) \<Rightarrow> (Inl uploadError, w1)
      | (None, w1) \<Rightarrow>
          let publicUrl = getPublicUrl env path in
          (case update_certificate_url env publicUrl (studentId d) (courseId d) w1 of
             (Some updateError, w2) \<Rightarrow> (Inl updateError, w2)
           | (None, w2) \<Rightarrow>
               (Inr publicUrl,
                toast_success ''Certificate generated and saved successfully!''
                  (pdf_save name pdfBlob w2))))"

text \<open>
  The whole function. Its result is \<open>Inl e\<close> if \<open>e\<close> escapes to the caller, \<open>Inr (Some url)\<close>
  for the returned URL and \<open>Inr None\<close> for \<open>null\<close>.
\<close>

definition generateCertificate ::
  "cert_env \<Rightarrow> CertificateData \<Rightarrow> world \<Rightarrow> (error + string option) \<times> world" where
  "generateCertificate env d w =
     (let pdfBlob = render env d;
          name = fileName env d in
      case certificate_try env d pdfBlob name w of
        (Inr url, w') \<Rightarrow> (Inr (Some url), w')
      | (Inl e, w') \<Rightarrow>
          (Inr None,
           pdf_save name pdfBlob
             (toast_error ''Failed to save certificate'' (console_error e w'))))"

section \<open>Course drop (CourseEnrollment, \<open>handleDrop\<close>)\<close>

text \<open>
  \<open>user\<close> is the id of \<open>auth.getUser()\<close>'s user, if any; \<open>delete_fault\<close> the error of
  the delete request, if the backend returns one. Of the page's state the handler
  writes the set \<open>enrolledCourses\<close> only.
\<close>

record drop_env =
  user :: "string option"
  delete_fault :: "error option"

record enrollment_state =
  enrolledCourses :: "string set"

text \<open>\<open>from("student_courses").delete().eq("student_id", u).eq("subject_id", s)\<close>\<close>

definition delete_enrollment :: "drop_env \<Rightarrow> string \<Rightarrow> string \<Rightarrow> world \<Rightarrow> error option \<times> world" where
  "delete_enrollment env uid subjectId w =
     (case delete_fault env of
        Some e \<Rightarrow> (Some e, w)
      | None \<Rightarrow>
          (None, w\<lparr>student_courses :=
             filter (\<lambda>r. \<not> (sc_student_id r = uid \<and> sc_subject_id r = subjectId))
                    (student_courses w)\<rparr>))"

definition handleDrop ::
  "drop_env \<Rightarrow> string \<Rightarrow> enrollment_state \<Rightarrow> world \<Rightarrow> enrollment_state \<times> world" where
  "handleDrop env subjectId st w =
     (case user env of
        None \<Rightarrow> (st, w)
      | Some uid \<Rightarrow>
          (case delete_enrollment env uid subjectId w of
             (Some e, w1) \<Rightarrow>
               (st, console_error e (toast_error ''Failed to drop course'' w1))
           | (None, w1) \<Rightarrow>
               (st\<lparr>enrolledCourses := enrolledCourses st - {subjectId}\<rparr>,
                toast_success ''Dropped course (your progress is saved!)'' w1)))"

section \<open>Numbers read from text\<close>

text \<open>
  A JavaScript number as the grading code sees it: NaN, an infinity, or a finite double,
  given by its value (the two zeros are one value; they compare alike). \<open>parseFloat\<close>
  follows the grammar of \<open>StrDecimalLiteral\<close>: leading white space, a sign,
  \<open>Infinity\<close> or digits with an optional fraction and exponent, and the longest prefix
  that fits; the value of the literal is then rounded to the nearest double, also for
  literals of more than 20 significant digits, as the engines do.
\<close>

datatype jsnum = NaN | NegInfinity | Num rat | PosInfinity

text \<open>The number of binary digits of a natural number.\<close>

fun bit_length :: "nat \<Rightarrow> nat" where
  "bit_length n = (if n = 0 then 0 else Suc (bit_length (n div 2)))"

declare bit_length.simps [simp del]

definition pow2 :: "int \<Rightarrow> rat" where
  "pow2 e = (if 0 \<le> e then 2 ^ nat e else 1 / 2 ^ nat (- e))"

text \<open>The exponent \<open>e\<close> with \<open>2 ^ e \<le> a < 2 ^ (e + 1)\<close>, for a positive \<open>a\<close>.\<close>

definition binade :: "rat \<Rightarrow> int" where
  "binade a =
     (if 1 \<le> a then int (bit_length (nat \<lfloor>a\<rfloor>)) - 1
      else - int (bit_length (nat (\<lceil>1 / a\<rceil> - 1))))"

definition round_half_even :: "rat \<Rightarrow> int" where
  "round_half_even m =
     (let f = \<lfloor>m\<rfloor>; r = m - of_int f
      in if r < 1 / 2 then f
         else if 1 / 2 < r then f + 1
         else if even f then f else f + 1)"

text \<open>
  The double nearest to a value, ties to the even significand: 53 significant bits,
  steps of \<open>2 ^ - 1074\<close> below the normal range (so tiny values become zero), and an
  infinity from \<open>2 ^ 1024\<close> on.
\<close>

definition to_double :: "rat \<Rightarrow> jsnum" where
  "to_double q =
     (if q = 0 then Num 0
      else
        let a = \<bar>q\<bar>;
            k = max (binade a) (- 1022) - 52;
            v = of_int (round_half_even (a / pow2 k)) * pow2 k
        in if pow2 1024 \<le> v then (if q < 0 then NegInfinity else PosInfinity)
           else Num (if q < 0 then - v else v))"

definition is_digit :: "char \<Rightarrow> bool" where
  "is_digit c = (48 \<le> (of_char c :: nat) \<and> (of_char c :: nat) \<le> 57)"

definition digits_val :: "string \<Rightarrow> nat" where
  "digits_val ds = foldl (\<lambda>n c. 10 * n + (of_char c - 48)) 0 ds"

definition starts_with :: "string \<Rightarrow> string \<Rightarrow> bool" where
  "starts_with p s = (take (length p) s = p)"

text \<open>
  The exponent part after a mantissa: \<open>e\<close> or \<open>E\<close>, a sign, digits; ignored if
  incomplete. The result is the exact value of the literal.
\<close>

definition apply_exponent :: "rat \<Rightarrow> string \<Rightarrow> rat" where
  "apply_exponent m s =
     (case s of
        [] \<Rightarrow> m
      | c # r \<Rightarrow>
          if c = CHR ''e'' \<or> c = CHR ''E'' then
            (let neg = (case r of [] \<Rightarrow> False | x # _ \<Rightarrow> x = CHR ''-'');
                 r' = (case r of [] \<Rightarrow> []
                       | x # t \<Rightarrow> if x = CHR ''-'' \<or> x = CHR ''+'' then t else r);
                 ds = takeWhile is_digit r'
             in if ds = [] then m
                else if neg then m / 10 ^ digits_val ds
                else m * 10 ^ digits_val ds)
          else m)"

definition parse_unsigned :: "string \<Rightarrow> jsnum" where
  "parse_unsigned s =
     (if starts_with ''Infinity'' s then PosInfinity
      else
        let ip = takeWhile is_digit s;
            r1 = dropWhile is_digit s
        in (case r1 of
              c # r2 \<Rightarrow>
                if c = CHR ''.'' then
                  (let fp = takeWhile is_digit r2;
                       r3 = dropWhile is_digit r2
                   in if ip = [] \<and> fp = [] then NaN
                      else to_double (apply_exponent
                                        (of_nat (digits_val (ip @ fp)) / 10 ^ length fp) r3))
                else if ip = [] then NaN
                else to_double (apply_exponent (of_nat (digits_val ip)) r1)
            | [] \<Rightarrow> if ip = [] then NaN else to_double (of_nat (digits_val ip))))"

definition js_negate :: "jsnum \<Rightarrow> jsnum" where
  "js_negate x =
     (case x of NaN \<Rightarrow> NaN | NegInfinity \<Rightarrow> PosInfinity
      | Num q \<Rightarrow> Num (- q) | PosInfinity \<Rightarrow> NegInfinity)"

definition parseFloat :: "string \<Rightarrow> jsnum" where
  "parseFloat s =
     (case dropWhile is_space s of
        [] \<Rightarrow> NaN
      | c # r \<Rightarrow>
          if c = CHR ''-'' then js_negate (parse_unsigned r)
          else if c = CHR ''+'' then parse_unsigned r
          else parse_unsigned (c # r))"

definition isNaN :: "jsnum \<Rightarrow> bool" where
  "isNaN x = (x = NaN)"

text \<open>The operator \<open><\<close> on numbers: false whenever an operand is NaN.\<close>

fun js_lt :: "jsnum \<Rightarrow> jsnum \<Rightarrow> bool" where
  "js_lt NaN _ = False"
| "js_lt _ NaN = False"
| "js_lt (Num a) (Num b) = (a < b)"
| "js_lt NegInfinity NegInfinity = False"
| "js_lt NegInfinity _ = True"
| "js_lt _ NegInfinity = False"
| "js_lt PosInfinity _ = False"
| "js_lt _ PosInfinity = True"

section \<open>Grading queue (GradingQueue: \<open>submitGrade\<close>, \<open>handleBulkGrade\<close>)\<close>

text \<open>
  The object the page holds for a submission: the fields of the interface
  \<open>Submission\<close> (the rubric, which is only displayed, is left out), with the embedded
  \<open>student.full_name\<close>, \<open>assignment.title\<close> and \<open>assignment.points\<close>. The handlers also
  read \<open>student_id\<close> and \<open>assignment_id\<close> through an \<open>as any\<close> cast; the last two fields
  are these properties, \<open>None\<close> when the object does not have them (\<open>undefined\<close>).
\<close>

record Submission =
  s_id :: string
  s_submission_text :: "string option"
  s_submitted_at :: "nat option"
  s_is_late :: bool
  s_status :: "string option"
  s_grade :: "rat option"
  s_feedback :: "string option"
  s_student_full_name :: string
  s_assignment_title :: string
  s_assignment_points :: rat
  s_student_id :: "string option"
  s_assignment_id :: "string option"

record grading_state =
  submissions :: "Submission list"
  loading :: bool
  grading :: bool
  selectedSubmission :: "Submission option"
  grade :: string
  feedback :: string
  selectedSubmissions :: "string list"
  bulkGrade :: string
  bulkFeedback :: string

text \<open>
  What the handlers read from outside: the session's user id, the instant
  \<open>new Date()\<close> gives while the update of a submission is built, the text of a number in
  a template literal, and the error of each backend request, if it returns one (the
  update and the insert by the submission they belong to).
\<close>

record grading_env =
  session :: "string option"
  date_now :: "string \<Rightarrow> nat"
  number_text :: "rat \<Rightarrow> string"
  fetch_fault :: "error option"
  grade_update_fault :: "string \<Rightarrow> error option"
  notify_fault :: "string \<Rightarrow> error option"

text \<open>
  The select list of \<open>fetchSubmissions\<close>: id, submission_text, submitted_at, is_late,
  status, grade, feedback, student(full_name), assignment(title, points, rubric).
  Neither \<open>student_id\<close> nor \<open>assignment_id\<close> is in it.
\<close>

definition select_submission :: "world \<Rightarrow> submission_row \<Rightarrow> Submission" where
  "select_submission w r =
     \<lparr>s_id = as_id r,
      s_submission_text = as_submission_text r,
      s_submitted_at = as_submitted_at r,
      s_is_late = as_is_late r,
      s_status = as_status r,
      s_grade = as_grade r,
      s_feedback = as_feedback r,
      s_student_full_name = full_name_of w (as_student_id r),
      s_assignment_title = a_title (assignment_of w (as_assignment_id r)),
      s_assignment_points = a_points (assignment_of w (as_assignment_id r)),
      s_student_id = None,
      s_assignment_id = None\<rparr>"

text \<open>\<open>order("submitted_at", {ascending: true})\<close>: by instant, rows without one last.\<close>

fun submitted_before :: "submission_row \<Rightarrow> submission_row \<Rightarrow> bool" where
  "submitted_before a b =
     (case (as_submitted_at a, as_submitted_at b) of
        (Some x, Some y) \<Rightarrow> x \<le> y
      | (Some x, None) \<Rightarrow> True
      | (None, Some y) \<Rightarrow> False
      | (None, None) \<Rightarrow> True)"

fun insert_by_submitted :: "submission_row \<Rightarrow> submission_row list \<Rightarrow> submission_row list" where
  "insert_by_submitted r [] = [r]"
| "insert_by_submitted r (x # xs) =
     (if submitted_before r x then r # x # xs else x # insert_by_submitted r xs)"

definition order_by_submitted :: "submission_row list \<Rightarrow> submission_row list" where
  "order_by_submitted rs = foldr insert_by_submitted rs []"

definition query_submitted :: "world \<Rightarrow> Submission list" where
  "query_submitted w =
     map (select_submission w)
       (order_by_submitted
          (filter (\<lambda>r. as_status r = Some ''submitted'') (assignment_submissions w)))"

definition fetchSubmissions :: "grading_env \<Rightarrow> grading_state \<Rightarrow> world \<Rightarrow> grading_state \<times> world" where
  "fetchSubmissions env st w =
     (case session env of
        None \<Rightarrow> (st, w)
      | Some u \<Rightarrow>
          (case fetch_fault env of
             Some e \<Rightarrow> (st\<lparr>loading := False\<rparr>, toast_error ''Failed to load submissions'' w)
           | None \<Rightarrow> (st\<lparr>submissions := query_submitted w, loading := False\<rparr>, w)))"

definition openGradingDialog :: "grading_env \<Rightarrow> Submission \<Rightarrow> grading_state \<Rightarrow> grading_state" where
  "openGradingDialog env submission st =
     st\<lparr>selectedSubmission := Some submission,
        grade := (case s_grade submission of None \<Rightarrow> [] | Some g \<Rightarrow> number_text env g),
        feedback := (case s_feedback submission of None \<Rightarrow> [] | Some f \<Rightarrow> f)\<rparr>"

definition toggleSubmissionSelection :: "string \<Rightarrow> grading_state \<Rightarrow> grading_state" where
  "toggleSubmissionSelection i st =
     (if i \<in> set (selectedSubmissions st)
      then st\<lparr>selectedSubmissions := filter (\<lambda>x. x \<noteq> i) (selectedSubmissions st)\<rparr>
      else st\<lparr>selectedSubmissions := selectedSubmissions st @ [i]\<rparr>)"

text \<open>
  The range check of both handlers,
  \<open>isNaN(gradeNum) || gradeNum < 0 || gradeNum > points\<close>: \<open>None\<close> when it rejects,
  the number otherwise (which is then finite).
\<close>

definition valid_grade :: "jsnum \<Rightarrow> rat \<Rightarrow> rat option" where
  "valid_grade gradeNum points =
     (if isNaN gradeNum \<or> js_lt gradeNum (Num 0) \<or> js_lt (Num points) gradeNum then None
      else (case gradeNum of Num g \<Rightarrow> Some g | _ \<Rightarrow> None))"

text \<open>
  The update of one submission row. \<open>graded_by\<close> is \<open>session?.user.id\<close>: without a
  session the key is undefined, is not sent, and the column keeps its value.
\<close>

definition update_submission ::
  "grading_env \<Rightarrow> string \<Rightarrow> rat \<Rightarrow> string \<Rightarrow> world \<Rightarrow> error option \<times> world" where
  "update_submission env sid g fb w =
     (case grade_update_fault env sid of
        Some e \<Rightarrow> (Some e, w)
      | None \<Rightarrow>
          (None, w\<lparr>assignment_submissions :=
             map (\<lambda>r. if as_id r = sid
                       then r\<lparr>as_grade := Some g,
                              as_feedback := Some fb,
                              as_status := Some ''graded'',
                              as_graded_at := Some (date_now env sid),
                              as_graded_by :=
                                (case session env of None \<Rightarrow> as_graded_by r | Some u \<Rightarrow> Some u)\<rparr>
                       else r)
                 (assignment_submissions w)\<rparr>))"

text \<open>
  The insert into \<open>notifications\<close>. An undefined \<open>user_id\<close> is not sent, and the column
  is \<open>NOT NULL\<close> without a default: the backend returns an error and stores no row.
\<close>

definition insert_notification ::
  "grading_env \<Rightarrow> string \<Rightarrow> string option \<Rightarrow> string \<Rightarrow> string \<Rightarrow> string \<Rightarrow> string \<Rightarrow> world
     \<Rightarrow> error option \<times> world" where
  "insert_notification env sid uid ty title msg link w =
     (case notify_fault env sid of
        Some e \<Rightarrow> (Some e, w)
      | None \<Rightarrow>
          (case uid of
             None \<Rightarrow> (Some NotNullViolation, w)
           | Some u \<Rightarrow>
               (None, w\<lparr>notifications := notifications w @
                   [\<lparr>n_user_id = u, n_type = ty, n_title = title,
                     n_message = msg, n_link = Some link\<rparr>]\<rparr>)))"

definition graded_message :: "grading_env \<Rightarrow> Submission \<Rightarrow> rat \<Rightarrow> string" where
  "graded_message env submission gradeNum =
     ''Your assignment '' @ [CHR 0x22] @ s_assignment_title submission @ [CHR 0x22] @
     '' has been graded. Score: '' @ number_text env gradeNum @ ''/'' @
     number_text env (s_assignment_points submission)"

definition graded_link :: "Submission \<Rightarrow> string" where
  "graded_link submission =
     ''/assignments/'' @ (case s_assignment_id submission of None \<Rightarrow> ''undefined'' | Some a \<Rightarrow> a)"

definition notify_graded :: "grading_env \<Rightarrow> Submission \<Rightarrow> rat \<Rightarrow> world \<Rightarrow> error option \<times> world" where
  "notify_graded env submission gradeNum w =
     insert_notification env (s_id submission) (s_student_id submission)
       ''assignment_graded'' ''Assignment Graded''
       (graded_message env submission gradeNum) (graded_link submission) w"

definition submitGrade :: "grading_env \<Rightarrow> grading_state \<Rightarrow> world \<Rightarrow> grading_state \<times> world" where
  "submitGrade env st w =
     (case selectedSubmission st of
        None \<Rightarrow> (st, toast_error ''Please enter a grade'' w)
      | Some sel \<Rightarrow>
          if grade st = [] then (st, toast_error ''Please enter a grade'' w)
          else
            (case valid_grade (parseFloat (grade st)) (s_assignment_points sel) of
               None \<Rightarrow>
                 (st, toast_error (''Grade must be between 0 and '' @
                                   number_text env (s_assignment_points sel)) w)
             | Some gradeNum \<Rightarrow>
                 (case update_submission env (s_id sel) gradeNum (feedback st) w of
                    (Some e, w1) \<Rightarrow>
                      (st\<lparr>grading := False\<rparr>, toast_error ''Failed to submit grade'' w1)
                  | (None, w1) \<Rightarrow>
                      let w2 = snd (notify_graded env sel gradeNum w1);
                          w3 = toast_success ''Grade submitted successfully'' w2
                      in fetchSubmissions env
                           (st\<lparr>selectedSubmission := None, grade := [], feedback := [],
                               grading := False\<rparr>) w3)))"

text \<open>The loop of \<open>handleBulkGrade\<close> over the selected ids, in the set's order.\<close>

fun bulk_loop :: "grading_env \<Rightarrow> grading_state \<Rightarrow> string list \<Rightarrow> world \<Rightarrow> world" where
  "bulk_loop env st [] w = w"
| "bulk_loop env st (submissionId # rest) w =
     (case find (\<lambda>s. s_id s = submissionId) (submissions st) of
        None \<Rightarrow> bulk_loop env st rest w
      | Some submission \<Rightarrow>
          (case valid_grade (parseFloat (bulkGrade st)) (s_assignment_points submission) of
             None \<Rightarrow>
               bulk_loop env st rest
                 (toast_error (''Invalid grade for '' @ s_student_full_name submission) w)
           | Some gradeNum \<Rightarrow>
               let w1 = snd (update_submission env submissionId gradeNum (bulkFeedback st) w);
                   w2 = snd (notify_graded env submission gradeNum w1)
               in bulk_loop env st rest w2))"

definition handleBulkGrade :: "grading_env \<Rightarrow> grading_state \<Rightarrow> world \<Rightarrow> grading_state \<times> world" where
  "handleBulkGrade env st w =
     (if selectedSubmissions st = [] then (st, toast_error ''Please select submissions to grade'' w)
      else if bulkGrade st = [] then (st, toast_error ''Please enter a grade'' w)
      else
        let w1 = bulk_loop env st (selectedSubmissions st) w;
            w2 = toast_success
                   (''Graded '' @ show_nat (length (selectedSubmissions st)) @ '' submissions'') w1
        in fetchSubmissions env
             (st\<lparr>selectedSubmissions := [], bulkGrade := [], bulkFeedback := [],
                 grading := False\<rparr>) w2)"

text \<open>
  For stating what the bulk loop does to the table: the row as both handlers write it,
  the grade the loop writes for a selected id (none if the id is not in the queue, the
  grade is rejected for that submission's points, or the update fails), and the row
  after the loop has gone through a list of ids.
\<close>

definition graded_row :: "grading_env \<Rightarrow> rat \<Rightarrow> string \<Rightarrow> submission_row \<Rightarrow> submission_row" where
  "graded_row env g fb r =
     r\<lparr>as_grade := Some g,
       as_feedback := Some fb,
       as_status := Some ''graded'',
       as_graded_at := Some (date_now env (as_id r)),
       as_graded_by := (case session env of None \<Rightarrow> as_graded_by r | Some u \<Rightarrow> Some u)\<rparr>"

definition bulk_accepts :: "grading_env \<Rightarrow> grading_state \<Rightarrow> string \<Rightarrow> rat option" where
  "bulk_accepts env st i =
     (case find (\<lambda>s. s_id s = i) (submissions st) of
        None \<Rightarrow> None
      | Some submission \<Rightarrow>
          (case valid_grade (parseFloat (bulkGrade st)) (s_assignment_points submission) of
             None \<Rightarrow> None
           | Some g \<Rightarrow> (case grade_update_fault env i of Some e \<Rightarrow> None | None \<Rightarrow> Some g)))"

definition bulk_row :: "grading_env \<Rightarrow> grading_state \<Rightarrow> string list \<Rightarrow> submission_row \<Rightarrow> submission_row" where
  "bulk_row env st ids r =
     (if as_id r \<in> set ids
      then (case bulk_accepts env st (as_id r) of
              None \<Rightarrow> r
            | Some g \<Rightarrow> graded_row env g (bulkFeedback st) r)
      else r)"

section \<open>Progress aggregation and the completion trigger\<close>

text \<open>
  The tables \<open>content\<close> and \<open>content_progress\<close> are declared in types.ts and in the
  migrations; the code that aggregates them into an enrollment's progress and that
  marks the enrollment completed is not among the source files. Both are modelled
  from the specification, sections 4.1 and 4.2.
\<close>

record content_item =
  c_id :: string
  c_subject_id :: string

record content_progress =
  cp_student_id :: string
  cp_content_id :: string
  cp_completion_percentage :: "int option"
  cp_completed :: "bool option"

text \<open>
  Modelled from the spec: the content items of a course, which the aggregation counts
  (the code that reads them is missing).
\<close>

definition course_items :: "content_item list \<Rightarrow> string \<Rightarrow> content_item list" where
  "course_items content course = filter (\<lambda>c. c_subject_id c = course) content"

text \<open>
  Modelled from the spec: the items of the course that a progress record of the student
  marks completed (the code that reads them is missing).
\<close>

definition completed_items ::
  "content_item list \<Rightarrow> content_progress list \<Rightarrow> string \<Rightarrow> string \<Rightarrow> content_item list" where
  "completed_items content records student course =
     filter (\<lambda>c. list_ex (\<lambda>p. cp_student_id p = student \<and> cp_content_id p = c_id c \<and>
                              cp_completed p = Some True) records)
            (course_items content course)"

text \<open>
  Modelled from the spec: Progress Aggregation, which is missing from the source. "A
  percentage in [0,100], typically count(completed=true)/count(total) * 100, rounded";
  "zero content items: progress defined as 0". Rounding is to the nearest integer,
  halves upwards, as \<open>Math.round\<close> does.
\<close>

definition progress_aggregation ::
  "content_item list \<Rightarrow> content_progress list \<Rightarrow> string \<Rightarrow> string \<Rightarrow> int" where
  "progress_aggregation content records student course =
     (let total = length (course_items content course);
          finished = length (completed_items content records student course)
      in if total = 0 then 0
         else round (rat_of_nat finished / rat_of_nat total * 100))"

text \<open>
  What one run of the completion trigger reads from outside: \<open>now()\<close>, the policy
  threshold, and the error of the persistence write, if it fails.
\<close>

record trigger_env =
  trigger_now :: string
  threshold :: int
  write_fault :: "error option"

text \<open>
  Modelled from the spec: the Course Completion Trigger, which is missing from the
  source. "When aggregated progress reaches 100 (policy threshold, configurable), set
  completed=true and completed_at=now() exactly once; subsequent aggregation calls after
  completion are no-ops"; "if the underlying persistence write fails, the state is left
  unchanged and the caller is informed".
\<close>

definition completion_trigger :: "trigger_env \<Rightarrow> int \<Rightarrow> enrollment \<Rightarrow> error option \<times> enrollment" where
  "completion_trigger env progress e =
     (if sc_completed e = Some True then (None, e)
      else if progress < threshold env then (None, e)
      else (case write_fault env of
              Some err \<Rightarrow> (Some err, e)
            | None \<Rightarrow>
                (None, e\<lparr>sc_completed := Some True,
                         sc_completed_at := Some (trigger_now env)\<rparr>)))"

text \<open>
  Modelled from the spec: one aggregation run for an enrollment, the aggregation of the
  student's records followed by the trigger (the caller is missing from the source).
\<close>

definition aggregation_run ::
  "trigger_env \<Rightarrow> content_item list \<Rightarrow> content_progress list \<Rightarrow> enrollment \<Rightarrow> enrollment" where
  "aggregation_run env content records e =
     snd (completion_trigger env
            (progress_aggregation content records (sc_student_id e) (sc_subject_id e)) e)"

text \<open>
  Modelled from the spec: a sequence of later aggregation runs, each with its own
  instant, threshold, write outcome and state of the two tables.
\<close>

fun aggregation_runs ::
  "(trigger_env \<times> content_item list \<times> content_progress list) list \<Rightarrow> enrollment \<Rightarrow> enrollment" where
  "aggregation_runs [] e = e"
| "aggregation_runs ((env, content, records) # rest) e =
     aggregation_runs rest (aggregation_run env content records e)"

section \<open>Changing the completion state of enrollments\<close>

text \<open>
  \<open>with_completion c w\<close> is the world \<open>w\<close> with the columns \<open>completed\<close> and
  \<open>completed_at\<close> of every enrollment row replaced by what \<open>c\<close> gives for the row's id.
  It is used to state that a handler does not read these columns.
\<close>

definition with_completion :: "(string \<Rightarrow> bool option \<times> string option) \<Rightarrow> world \<Rightarrow> world" where
  "with_completion c w =
     w\<lparr>student_courses :=
         map (\<lambda>r. r\<lparr>sc_completed := fst (c (sc_id r)), sc_completed_at := snd (c (sc_id r))\<rparr>)
             (student_courses w)\<rparr>"

section \<open>Example inputs\<close>

text \<open>
  One student enrolled in one course that is not completed, two submitted assignments
  (out of 10 and out of 5 points), a teacher's session, and a course of four content
  items.
\<close>

definition ex_enrollment :: enrollment where
  "ex_enrollment =
     \<lparr>sc_id = ''e1'', sc_student_id = ''stu1'', sc_subject_id = ''math-s1'',
      sc_progress = Some 40, sc_completed = Some False, sc_completed_at = None,
      sc_certificate_url = None\<rparr>"

definition ex_row :: "string \<Rightarrow> string \<Rightarrow> string \<Rightarrow> nat \<Rightarrow> submission_row" where
  "ex_row i a u t =
     \<lparr>as_id = i, as_assignment_id = a, as_student_id = u, as_submission_text = Some ''my answer'',
      as_submitted_at = Some t, as_grade = None, as_feedback = None, as_graded_at = None,
      as_graded_by = None, as_status = Some ''submitted'', as_is_late = False\<rparr>"

definition ex_world :: world where
  "ex_world =
     \<lparr>student_courses = [ex_enrollment],
      assignment_submissions = [ex_row ''sub1'' ''a1'' ''stu1'' 10, ex_row ''sub2'' ''a2'' ''stu2'' 20],
      assignment_of =
        (\<lambda>a. if a = ''a1'' then \<lparr>a_id = a, a_title = ''Essay'', a_points = 10\<rparr>
              else \<lparr>a_id = a, a_title = ''Quiz'', a_points = 5\<rparr>),
      full_name_of = (\<lambda>u. if u = ''stu1'' then ''Aline'' else ''Eric''),
      notifications = [], storage = [], downloads = [], toasts = [], console = []\<rparr>"

definition ex_cert_env :: "nat \<Rightarrow> error option \<Rightarrow> error option \<Rightarrow> cert_env" where
  "ex_cert_env t up upd =
     \<lparr>now = t, toLocaleDateString = (\<lambda>s. s),
      getPublicUrl = (\<lambda>p. ''https://files.example/'' @ p),
      upload_fault = up, update_fault = upd\<rparr>"

definition ex_cert :: CertificateData where
  "ex_cert =
     \<lparr>studentName = ''Aline'', courseName = ''Mathematics S1'', completionDate = ''2025-11-20'',
      courseId = ''math-s1'', studentId = ''stu1''\<rparr>"

definition ex_drop_env :: drop_env where
  "ex_drop_env = \<lparr>user = Some ''stu1'', delete_fault = None\<rparr>"

definition ex_grading_env :: grading_env where
  "ex_grading_env =
     \<lparr>session = Some ''teacher1'', date_now = (\<lambda>i. 1000),
      number_text = (\<lambda>q. show_nat (nat \<lfloor>q\<rfloor>)),
      fetch_fault = None, grade_update_fault = (\<lambda>i. None), notify_fault = (\<lambda>i. None)\<rparr>"

definition ex_state :: grading_state where
  "ex_state =
     \<lparr>submissions = [], loading = True, grading = False, selectedSubmission = None,
      grade = [], feedback = [], selectedSubmissions = [], bulkGrade = [], bulkFeedback = []\<rparr>"

text \<open>
  The teacher opens the queue, opens the dialog of the first submission and types a
  grade and a feedback.
\<close>

definition ex_dialog :: "string \<Rightarrow> grading_state" where
  "ex_dialog typed =
     (let st1 = fst (fetchSubmissions ex_grading_env ex_state ex_world)
      in case submissions st1 of
           [] \<Rightarrow> st1
         | submission # _ \<Rightarrow>
             (openGradingDialog ex_grading_env submission st1)
               \<lparr>grade := typed, feedback := ''Well done''\<rparr>)"

text \<open>The teacher opens the queue, ticks both submissions and types a bulk grade.\<close>

definition ex_bulk :: "string \<Rightarrow> grading_state" where
  "ex_bulk typed =
     (let st1 = fst (fetchSubmissions ex_grading_env ex_state ex_world);
          st2 = toggleSubmissionSelection ''sub2'' (toggleSubmissionSelection ''sub1'' st1)
      in st2\<lparr>bulkGrade := typed, bulkFeedback := ''ok''\<rparr>)"




definition ex_content :: "content_item list" where
  "ex_content =
     [\<lparr>c_id = ''c1'', c_subject_id = ''math-s1''\<rparr>, \<lparr>c_id = ''c2'', c_subject_id = ''math-s1''\<rparr>,
      \<lparr>c_id = ''c3'', c_subject_id = ''math-s1''\<rparr>, \<lparr>c_id = ''c4'', c_subject_id = ''math-s1''\<rparr>,
      \<lparr>c_id = ''p1'', c_subject_id = ''physics-s1''\<rparr>]"

definition ex_record :: "string \<Rightarrow> bool \<Rightarrow> content_progress" where
  "ex_record c b =
     \<lparr>cp_student_id = ''stu1'', cp_content_id = c,
      cp_completion_percentage = Some (if b then 100 else 40), cp_completed = Some b\<rparr>"

definition ex_records :: "bool \<Rightarrow> content_progress list" where
  "ex_records b =
     [ex_record ''c1'' True, ex_record ''c2'' True, ex_record ''c3'' True, ex_record ''c4'' b]"

definition ex_trigger_env :: "string \<Rightarrow> trigger_env" where
  "ex_trigger_env t = \<lparr>trigger_now = t, threshold = 100, write_fault = None\<rparr>"

section \<open>Properties of certificate issuance\<close>

lemma storage_upload_failed:
  "fst (storage_upload env p b w) = Some e \<Longrightarrow> storage_upload env p b w = (Some e, w)"
  by (auto simp: storage_upload_def split: option.splits if_splits)

lemma storage_upload_ok:
  "fst (storage_upload env p b w) = None \<Longrightarrow>
     storage_upload env p b w = (None, w\<lparr>storage := storage w @ [(p, b)]\<rparr>)"
  by (auto simp: storage_upload_def split: option.splits if_splits)

lemma storage_upload_ok_iff:
  "fst (storage_upload env p b w) = None \<longleftrightarrow> upload_fault env = None \<and> p \<notin> fst ` set (storage w)"
  by (auto simp: storage_upload_def split: option.splits if_splits)

lemma generateCertificate_upload_failed:
  assumes "fst (storage_upload env (certificate_path (studentId d) (fileName env d)) (render env d) w) = Some e"
  shows "generateCertificate env d w =
           (Inr None, pdf_save (fileName env d) (render env d)
              (toast_error ''Failed to save certificate'' (console_error e w)))"
  using storage_upload_failed [OF assms]
  by (simp add: generateCertificate_def certificate_try_def Let_def)

lemma generateCertificate_update_failed:
  assumes "fst (storage_upload env (certificate_path (studentId d) (fileName env d)) (render env d) w) = None"
    and "update_fault env = Some e"
  shows "generateCertificate env d w =
           (Inr None, pdf_save (fileName env d) (render env d)
              (toast_error ''Failed to save certificate''
                (console_error e
                   (w\<lparr>storage := storage w @ [(certificate_path (studentId d) (fileName env d), render env d)]\<rparr>))))"
  using storage_upload_ok [OF assms(1)] assms(2)
  by (simp add: generateCertificate_def certificate_try_def Let_def
      update_certificate_url_def)

lemma generateCertificate_succeeded:
  assumes "fst (storage_upload env (certificate_path (studentId d) (fileName env d)) (render env d) w) = None"
    and "update_fault env = None"
  shows "generateCertificate env d w =
           (Inr (Some (getPublicUrl env (certificate_path (studentId d) (fileName env d)))),
            toast_success ''Certificate generated and saved successfully!''
              (pdf_save (fileName env d) (render env d)
                 (w\<lparr>storage := storage w @ [(certificate_path (studentId d) (fileName env d), render env d)],
                    student_courses :=
                      map (\<lambda>r. if sc_student_id r = studentId d \<and> sc_subject_id r = courseId d
                                then r\<lparr>sc_certificate_url :=
                                         Some (getPublicUrl env (certificate_path (studentId d) (fileName env d)))\<rparr>
                                else r)
                          (student_courses w)\<rparr>)))"
  using storage_upload_ok [OF assms(1)] assms(2)
  by (simp add: generateCertificate_def certificate_try_def Let_def
      update_certificate_url_def)

text \<open>
  Claim C6. If the upload to storage returns an error, \<open>generateCertificate\<close> returns
  \<open>null\<close> to its caller and shows the error toast, makes no update (the enrollment rows
  and the bucket are as before), and still saves the rendered document locally.
\<close>

theorem upload_failure_keeps_database:
  assumes "fst (storage_upload env (certificate_path (studentId d) (fileName env d)) (render env d) w) = Some e"
  shows "fst (generateCertificate env d w) = Inr None \<and>
         student_courses (snd (generateCertificate env d w)) = student_courses w \<and>
         storage (snd (generateCertificate env d w)) = storage w \<and>
         toasts (snd (generateCertificate env d w)) =
           toasts w @ [ToastError ''Failed to save certificate''] \<and>
         console (snd (generateCertificate env d w)) = console w @ [e] \<and>
         downloads (snd (generateCertificate env d w)) =
           downloads w @ [(fileName env d, render env d)]"
  by (simp add: generateCertificate_upload_failed [OF assms] pdf_save_def toast_error_def
      console_error_def)

text \<open>
  Claim C10. \<open>generateCertificate\<close> always returns to its caller: the public URL exactly
  when the upload and the row update both succeed, \<open>null\<close> otherwise; and every run
  saves the rendered document locally exactly once.
\<close>

theorem generateCertificate_never_throws:
  "\<exists>r w'. generateCertificate env d w = (Inr r, w') \<and>
     (r = (if fst (storage_upload env (certificate_path (studentId d) (fileName env d)) (render env d) w) = None \<and>
              update_fault env = None
           then Some (getPublicUrl env (certificate_path (studentId d) (fileName env d))) else None)) \<and>
     downloads w' = downloads w @ [(fileName env d, render env d)]"
proof (cases "fst (storage_upload env (certificate_path (studentId d) (fileName env d)) (render env d) w)")
  case (Some e)
  then show ?thesis
    by (simp add: generateCertificate_upload_failed pdf_save_def toast_error_def console_error_def)
next
  case None
  show ?thesis
  proof (cases "update_fault env")
    case (Some e)
    with None show ?thesis
      by (simp add: generateCertificate_update_failed pdf_save_def toast_error_def
          console_error_def)
  next
    case n: None
    with None show ?thesis
      by (simp add: generateCertificate_succeeded pdf_save_def toast_success_def)
  qed
qed

lemma generateCertificate_returned_url:
  assumes "generateCertificate env d w = (Inr (Some u), w')"
  shows "fst (storage_upload env (certificate_path (studentId d) (fileName env d)) (render env d) w) = None
         \<and> update_fault env = None"
proof (cases "fst (storage_upload env (certificate_path (studentId d) (fileName env d)) (render env d) w)")
  case (Some e)
  from generateCertificate_upload_failed [OF Some] assms show ?thesis by simp
next
  case None
  show ?thesis
  proof (cases "update_fault env")
    case (Some e)
    from generateCertificate_update_failed [OF None Some] assms show ?thesis by simp
  next
    case n: None
    with None show ?thesis by simp
  qed
qed

lemma storage_upload_with_completion:
  "storage_upload env p b (with_completion c w) =
     (fst (storage_upload env p b w), with_completion c (snd (storage_upload env p b w)))"
  by (simp add: storage_upload_def with_completion_def split: option.splits)

lemma update_certificate_url_with_completion:
  "update_certificate_url env u s k (with_completion c w) =
     (fst (update_certificate_url env u s k w),
      with_completion c (snd (update_certificate_url env u s k w)))"
  by (simp add: update_certificate_url_def with_completion_def o_def if_distrib cong: if_cong
      split: option.splits)

lemma effects_with_completion:
  "pdf_save n b (with_completion c w) = with_completion c (pdf_save n b w)"
  "toast_error m (with_completion c w) = with_completion c (toast_error m w)"
  "toast_success m (with_completion c w) = with_completion c (toast_success m w)"
  "console_error e (with_completion c w) = with_completion c (console_error e w)"
  by (simp_all add: pdf_save_def toast_error_def toast_success_def console_error_def
      with_completion_def)

lemma certificate_try_with_completion:
  "certificate_try env d b n (with_completion c w) =
     (fst (certificate_try env d b n w), with_completion c (snd (certificate_try env d b n w)))"
  by (simp add: certificate_try_def Let_def storage_upload_with_completion
      update_certificate_url_with_completion effects_with_completion
      split: prod.splits option.splits)

text \<open>
  Claim C8. \<open>generateCertificate\<close> does not read the completion state: whatever values
  \<open>completed\<close> and \<open>completed_at\<close> have in the enrollment rows, the result and every
  effect are the same, and the columns themselves are left as they are.
\<close>

theorem generateCertificate_ignores_completed:
  "generateCertificate env d (with_completion c w) =
     (fst (generateCertificate env d w), with_completion c (snd (generateCertificate env d w)))"
  by (simp add: generateCertificate_def Let_def certificate_try_with_completion
      effects_with_completion split: prod.splits sum.splits)

lemma digit_char_val: "d < 10 \<Longrightarrow> (of_char (digit_char d) :: nat) - 48 = d"
proof -
  assume "d < 10"
  then have "d \<in> {0,1,2,3,4,5,6,7,8,9}" by auto
  then show ?thesis by (auto simp: digit_char_def)
qed

lemma digits_val_snoc: "digits_val (ds @ [c]) = 10 * digits_val ds + (of_char c - 48)"
  by (simp add: digits_val_def)

lemma digits_val_show_nat: "digits_val (show_nat n) = n"
proof (induction n rule: show_nat.induct)
  case (1 n)
  show ?case
  proof (cases "n < 10")
    case True
    then show ?thesis
      by (subst show_nat.simps) (simp add: digits_val_def digit_char_val)
  next
    case False
    with 1 have "digits_val (show_nat (n div 10)) = n div 10" by simp
    with False show ?thesis
      by (subst show_nat.simps) (simp add: digits_val_snoc digit_char_val)
  qed
qed

lemma show_nat_inj: "show_nat m = show_nat n \<Longrightarrow> m = n"
  by (metis digits_val_show_nat)

lemma fileName_clock:
  assumes "courseName d2 = courseName d1" and "now env1 \<noteq> now env2"
  shows "certificate_path s (fileName env1 d1) \<noteq> certificate_path s (fileName env2 d2)"
  using assms by (auto simp: certificate_path_def fileName_def dest: show_nat_inj)

lemma regeneration_succeeds:
  assumes same: "studentId d2 = studentId d1" "courseName d2 = courseName d1"
    and clock: "now env1 \<noteq> now env2"
    and ok: "upload_fault env1 = None" "update_fault env1 = None"
            "upload_fault env2 = None" "update_fault env2 = None"
    and fresh: "certificate_path (studentId d1) (fileName env1 d1) \<notin> fst ` set (storage w)"
               "certificate_path (studentId d2) (fileName env2 d2) \<notin> fst ` set (storage w)"
  shows "\<exists>w1 w2.
           generateCertificate env1 d1 w =
             (Inr (Some (getPublicUrl env1 (certificate_path (studentId d1) (fileName env1 d1)))), w1) \<and>
           generateCertificate env2 d2 w1 =
             (Inr (Some (getPublicUrl env2 (certificate_path (studentId d2) (fileName env2 d2)))), w2)"
proof -
  let ?p1 = "certificate_path (studentId d1) (fileName env1 d1)"
  let ?p2 = "certificate_path (studentId d2) (fileName env2 d2)"
  have up1: "fst (storage_upload env1 ?p1 (render env1 d1) w) = None"
    using ok fresh by (simp add: storage_upload_ok_iff)
  note r1 = generateCertificate_succeeded [OF up1 ok(2)]
  let ?w1 = "snd (generateCertificate env1 d1 w)"
  have s1: "storage ?w1 = storage w @ [(?p1, render env1 d1)]"
    by (simp add: r1 toast_success_def pdf_save_def)
  from fileName_clock [OF same(2) clock, of "studentId d1"] same
  have ne: "?p1 \<noteq> ?p2" by simp
  have up2: "fst (storage_upload env2 ?p2 (render env2 d2) ?w1) = None"
    using ok fresh ne by (auto simp: storage_upload_ok_iff s1)
  note r2 = generateCertificate_succeeded [OF up2 ok(4)]
  from r1 r2 show ?thesis by simp
qed

text \<open>
  Claim C7. Two runs for the same student and course that both return a URL store two
  objects under two different paths, the first one still in place after the second run,
  and leave \<open>certificate_url\<close> of the enrollment at the URL of the second run; the second
  run changes the world again, so the operation is not idempotent.
\<close>

theorem regeneration_last_write_wins:
  assumes same: "studentId d2 = studentId d1" "courseId d2 = courseId d1"
    and run1: "generateCertificate env1 d1 w = (Inr (Some url1), w1)"
    and run2: "generateCertificate env2 d2 w1 = (Inr (Some url2), w2)"
  shows "certificate_path (studentId d1) (fileName env1 d1) \<noteq>
           certificate_path (studentId d2) (fileName env2 d2) \<and>
         storage w2 = storage w @
           [(certificate_path (studentId d1) (fileName env1 d1), render env1 d1),
            (certificate_path (studentId d2) (fileName env2 d2), render env2 d2)] \<and>
         url2 = getPublicUrl env2 (certificate_path (studentId d2) (fileName env2 d2)) \<and>
         (\<forall>r \<in> set (student_courses w2).
            sc_student_id r = studentId d1 \<and> sc_subject_id r = courseId d1 \<longrightarrow>
              sc_certificate_url r = Some url2) \<and>
         w2 \<noteq> w1"
proof -
  let ?p1 = "certificate_path (studentId d1) (fileName env1 d1)"
  let ?p2 = "certificate_path (studentId d2) (fileName env2 d2)"
  from generateCertificate_returned_url [OF run1]
  have ok1: "fst (storage_upload env1 ?p1 (render env1 d1) w) = None" "update_fault env1 = None"
    by simp_all
  from generateCertificate_returned_url [OF run2]
  have ok2: "fst (storage_upload env2 ?p2 (render env2 d2) w1) = None" "update_fault env2 = None"
    by simp_all
  from generateCertificate_succeeded [OF ok1] run1
  have st1: "storage w1 = storage w @ [(?p1, render env1 d1)]"
    by (auto simp: toast_success_def pdf_save_def)
  from generateCertificate_succeeded [OF ok2] run2
  have w2: "storage w2 = storage w1 @ [(?p2, render env2 d2)]"
    and u2: "url2 = getPublicUrl env2 ?p2"
    and rows: "student_courses w2 =
       map (\<lambda>r. if sc_student_id r = studentId d2 \<and> sc_subject_id r = courseId d2
                 then r\<lparr>sc_certificate_url := Some (getPublicUrl env2 ?p2)\<rparr> else r)
           (student_courses w1)"
    by (auto simp: toast_success_def pdf_save_def)
  from ok2(1) have "?p2 \<notin> fst ` set (storage w1)"
    by (simp add: storage_upload_ok_iff)
  with st1 have ne: "?p1 \<noteq> ?p2" by auto
  from w2 have "storage w2 \<noteq> storage w1" by simp
  then have "w2 \<noteq> w1" by auto
  with ne st1 w2 u2 rows same show ?thesis by auto
qed

text \<open>
  Claim C9. A drop by a signed-in student whose delete request succeeds removes the
  enrollment rows of that student and course and shows the toast that the progress is
  saved; no row of the pair remains, and the outcome does not depend on what the
  removed rows held (progress, completion, certificate URL), so nothing of it is kept.
\<close>

theorem handleDrop_deletes_row:
  assumes "user env = Some uid" and "delete_fault env = None"
  shows "handleDrop env subjectId st w =
           (st\<lparr>enrolledCourses := enrolledCourses st - {subjectId}\<rparr>,
            toast_success ''Dropped course (your progress is saved!)''
              (w\<lparr>student_courses :=
                   filter (\<lambda>r. \<not> (sc_student_id r = uid \<and> sc_subject_id r = subjectId))
                          (student_courses w)\<rparr>)) \<and>
         (\<forall>r \<in> set (student_courses (snd (handleDrop env subjectId st w))).
            \<not> (sc_student_id r = uid \<and> sc_subject_id r = subjectId)) \<and>
         (\<forall>rows.
            filter (\<lambda>r. \<not> (sc_student_id r = uid \<and> sc_subject_id r = subjectId)) rows =
            filter (\<lambda>r. \<not> (sc_student_id r = uid \<and> sc_subject_id r = subjectId))
                   (student_courses w) \<longrightarrow>
            handleDrop env subjectId st (w\<lparr>student_courses := rows\<rparr>) =
            handleDrop env subjectId st w)"
  using assms
  by (simp add: handleDrop_def delete_enrollment_def toast_success_def)

section \<open>Properties of the grading queue\<close>

lemma bit_length_upper: "n < 2 ^ bit_length n"
proof (induction n rule: bit_length.induct)
  case (1 n)
  show ?case
  proof (cases "n = 0")
    case True
    then show ?thesis by (simp add: bit_length.simps)
  next
    case False
    with 1 have "n div 2 < 2 ^ bit_length (n div 2)" by simp
    then have "n < 2 * 2 ^ bit_length (n div 2)" by linarith
    with False show ?thesis by (subst bit_length.simps) simp
  qed
qed

lemma bit_length_pos: "0 < n \<Longrightarrow> 0 < bit_length n"
  by (subst bit_length.simps) simp

lemma bit_length_lower: "0 < n \<Longrightarrow> 2 ^ (bit_length n - 1) \<le> n"
proof (induction n rule: bit_length.induct)
  case (1 n)
  from "1.prems" have eq: "bit_length n = Suc (bit_length (n div 2))"
    by (subst bit_length.simps) simp
  show ?case
  proof (cases "n div 2 = 0")
    case True
    then have "bit_length (n div 2) = 0" by (simp add: bit_length.simps)
    with eq "1.prems" show ?thesis by simp
  next
    case False
    with 1 have ih: "2 ^ (bit_length (n div 2) - 1) \<le> n div 2" by simp
    from False bit_length_pos [of "n div 2"]
    have "bit_length (n div 2) = Suc (bit_length (n div 2) - 1)" by simp
    then have "(2::nat) ^ bit_length (n div 2) = 2 * 2 ^ (bit_length (n div 2) - 1)"
      by (metis power_Suc)
    with ih have "2 ^ bit_length (n div 2) \<le> n" by linarith
    with eq show ?thesis by simp
  qed
qed

lemma round_half_even_int: "round_half_even (of_int z) = z"
  by (simp add: round_half_even_def)

text \<open>Every integer of magnitude below \<open>2 ^ 53\<close> is a double: rounding leaves it as it is.\<close>

lemma to_double_int:
  assumes "\<bar>i\<bar> < 2 ^ 53"
  shows "to_double (of_int i) = Num (of_int i)"
proof (cases "i = 0")
  case True
  then show ?thesis by (simp add: to_double_def)
next
  case False
  define n where "n = nat \<bar>i\<bar>"
  define m where "m = 53 - bit_length n"
  from False have n0: "0 < n" and ni: "int n = \<bar>i\<bar>" by (simp_all add: n_def)
  from assms ni have "int n < 2 ^ 53" by simp
  then have n53: "n < 2 ^ 53" by (metis of_nat_less_iff of_nat_numeral of_nat_power)
  from bit_length_lower [OF n0] n53 have lt: "(2::nat) ^ (bit_length n - 1) < 2 ^ 53" by linarith
  have "bit_length n - 1 < 53"
  proof (rule ccontr)
    assume "\<not> bit_length n - 1 < 53"
    then have "53 \<le> bit_length n - 1" by simp
    then have "(2::nat) ^ 53 \<le> 2 ^ (bit_length n - 1)" by (rule power_increasing) simp
    with lt show False by simp
  qed
  with bit_length_pos [OF n0] have bl: "0 < bit_length n" "bit_length n \<le> 53" by simp_all
  have a: "\<bar>rat_of_int i\<bar> = rat_of_int \<bar>i\<bar>" by simp
  from n0 ni have "1 \<le> \<bar>i\<bar>" by linarith
  then have one: "1 \<le> rat_of_int \<bar>i\<bar>" by (simp only: of_int_1_le_iff)
  have fl: "nat \<lfloor>rat_of_int \<bar>i\<bar>\<rfloor> = n" by (simp only: floor_of_int n_def)
  from one fl have b: "binade (rat_of_int \<bar>i\<bar>) = int (bit_length n) - 1"
    by (simp add: binade_def del: of_int_abs)
  from bl have k: "max (int (bit_length n) - 1) (- 1022) - 52 = - int m"
    by (simp add: m_def)
  have p: "pow2 (- int m) = 1 / 2 ^ m"
    by (cases "m = 0") (simp_all add: pow2_def)
  have q: "rat_of_int \<bar>i\<bar> / pow2 (- int m) = rat_of_int (\<bar>i\<bar> * 2 ^ m)"
    by (simp add: p del: of_int_abs)
  have v: "rat_of_int (round_half_even (rat_of_int \<bar>i\<bar> / pow2 (- int m))) * pow2 (- int m)
             = rat_of_int \<bar>i\<bar>"
    by (simp only: q round_half_even_int) (simp add: p del: of_int_abs)
  from assms have "rat_of_int \<bar>i\<bar> < 2 ^ 53"
    by (metis of_int_less_iff of_int_numeral of_int_power)
  also have "(2::rat) ^ 53 \<le> 2 ^ 1024" by (rule power_increasing) simp_all
  finally have big: "\<not> pow2 1024 \<le> rat_of_int \<bar>i\<bar>" by (simp add: pow2_def)
  from False have nz: "rat_of_int i \<noteq> 0" by simp
  show ?thesis
    unfolding to_double_def Let_def a b k v
    using nz big by (auto simp: abs_if)
qed


lemma parseFloat_empty: "parseFloat [] = NaN"
  by (simp add: parseFloat_def)

lemma valid_grade_Num:
  "valid_grade (Num g) p = (if g < 0 \<or> p < g then None else Some g)"
  by (simp add: valid_grade_def isNaN_def)

lemma valid_grade_not_finite:
  "x = NaN \<or> x = NegInfinity \<or> x = PosInfinity \<Longrightarrow> valid_grade x p = None"
  by (auto simp: valid_grade_def isNaN_def)

lemma valid_grade_range:
  "valid_grade x p = Some g \<Longrightarrow> x = Num g \<and> 0 \<le> g \<and> g \<le> p"
  by (cases x) (auto simp: valid_grade_def isNaN_def split: if_splits)

lemma fetchSubmissions_world:
  "assignment_submissions (snd (fetchSubmissions env st w)) = assignment_submissions w"
  "notifications (snd (fetchSubmissions env st w)) = notifications w"
  "student_courses (snd (fetchSubmissions env st w)) = student_courses w"
  "storage (snd (fetchSubmissions env st w)) = storage w"
  by (simp_all add: fetchSubmissions_def toast_error_def split: option.splits)

lemma notify_graded_rows:
  "assignment_submissions (snd (notify_graded env s g w)) = assignment_submissions w"
  by (simp add: notify_graded_def insert_notification_def split: option.splits)

lemma notify_graded_undefined:
  "s_student_id s = None \<Longrightarrow> snd (notify_graded env s g w) = w"
  by (simp add: notify_graded_def insert_notification_def split: option.splits)

lemma notify_graded_defined:
  "s_student_id s = Some u \<Longrightarrow> notify_fault env (s_id s) = None \<Longrightarrow>
   notifications (snd (notify_graded env s g w)) =
     notifications w @
       [\<lparr>n_user_id = u, n_type = ''assignment_graded'', n_title = ''Assignment Graded'',
         n_message = graded_message env s g, n_link = Some (graded_link s)\<rparr>]"
  by (simp add: notify_graded_def insert_notification_def)


lemma submitGrade_accepts:
  assumes "selectedSubmission st = Some sel"
    and "valid_grade (parseFloat (grade st)) (s_assignment_points sel) = Some g"
    and "grade_update_fault env (s_id sel) = None"
  shows "submitGrade env st w =
           fetchSubmissions env
             (st\<lparr>selectedSubmission := None, grade := [], feedback := [], grading := False\<rparr>)
             (toast_success ''Grade submitted successfully''
                (snd (notify_graded env sel g
                   (snd (update_submission env (s_id sel) g (feedback st) w)))))"
proof -
  from assms(2) have "parseFloat (grade st) = Num g" by (rule valid_grade_range [THEN conjunct1])
  then have "grade st \<noteq> []" using parseFloat_empty by auto
  with assms show ?thesis
    by (simp add: submitGrade_def update_submission_def Let_def)
qed

lemma submitGrade_writes_row:
  assumes "selectedSubmission st = Some sel"
    and "valid_grade (parseFloat (grade st)) (s_assignment_points sel) = Some g"
    and "grade_update_fault env (s_id sel) = None"
  shows "assignment_submissions (snd (submitGrade env st w)) =
           map (\<lambda>r. if as_id r = s_id sel
                     then r\<lparr>as_grade := Some g,
                            as_feedback := Some (feedback st),
                            as_status := Some ''graded'',
                            as_graded_at := Some (date_now env (s_id sel)),
                            as_graded_by :=
                              (case session env of None \<Rightarrow> as_graded_by r | Some u \<Rightarrow> Some u)\<rparr>
                     else r)
               (assignment_submissions w)"
  using assms(3)
  by (simp add: submitGrade_accepts [OF assms] fetchSubmissions_world notify_graded_rows
      toast_success_def update_submission_def)


lemma query_submitted_student_id: "\<forall>s \<in> set (query_submitted w). s_student_id s = None"
  by (simp add: query_submitted_def select_submission_def)

lemma fetchSubmissions_student_id:
  assumes "\<forall>s \<in> set (submissions st). s_student_id s = None"
  shows "\<forall>s \<in> set (submissions (fst (fetchSubmissions env st w))). s_student_id s = None"
  using assms query_submitted_student_id
  by (auto simp: fetchSubmissions_def split: option.splits)

lemma submitGrade_no_notification:
  assumes "selectedSubmission st = Some sel" and "s_student_id sel = None"
  shows "notifications (snd (submitGrade env st w)) = notifications w"
  using assms
  by (auto simp: submitGrade_def Let_def toast_error_def toast_success_def
      fetchSubmissions_world notify_graded_undefined update_submission_def
      split: option.splits prod.splits)

lemma bulk_loop_no_notification:
  assumes "\<forall>s \<in> set (submissions st). s_student_id s = None"
  shows "notifications (bulk_loop env st ids w) = notifications w"
proof (induction ids arbitrary: w)
  case Nil
  show ?case by simp
next
  case (Cons i ids)
  show ?case
  proof (cases "find (\<lambda>s. s_id s = i) (submissions st)")
    case None
    then show ?thesis by (simp add: Cons.IH)
  next
    case (Some s)
    then have "s \<in> set (submissions st)" by (auto simp: find_Some_iff)
    with assms have "s_student_id s = None" by simp
    with Some show ?thesis
      by (simp add: Cons.IH Let_def notify_graded_undefined toast_error_def
          update_submission_def split: option.splits)
  qed
qed

lemma update_submission_rows:
  "assignment_submissions (snd (update_submission env i g fb w)) =
     map (\<lambda>r. if as_id r = i \<and> grade_update_fault env i = None then graded_row env g fb r else r)
         (assignment_submissions w)"
  by (auto simp: update_submission_def graded_row_def split: option.splits)

lemma toast_error_rows:
  "assignment_submissions (toast_error m w) = assignment_submissions w"
  by (simp add: toast_error_def)

lemma graded_row_id: "as_id (graded_row env g fb r) = as_id r"
  by (simp add: graded_row_def)

lemma graded_row_twice: "graded_row env g fb (graded_row env g fb r) = graded_row env g fb r"
  by (simp add: graded_row_def split: option.splits)

lemma bulk_row_id: "as_id (bulk_row env st ids r) = as_id r"
  by (simp add: bulk_row_def graded_row_id split: option.splits)

lemma bulk_loop_rows:
  "assignment_submissions (bulk_loop env st ids w) =
     map (bulk_row env st ids) (assignment_submissions w)"
proof (induction ids arbitrary: w)
  case Nil
  show ?case by (simp add: bulk_row_def)
next
  case (Cons i ids)
  have step: "\<And>r. bulk_row env st ids (bulk_row env st [i] r) = bulk_row env st (i # ids) r"
    by (auto simp: bulk_row_def graded_row_id graded_row_twice split: option.splits)
  have "assignment_submissions (bulk_loop env st (i # ids) w) =
          map (bulk_row env st ids) (map (bulk_row env st [i]) (assignment_submissions w))"
  proof (cases "find (\<lambda>s. s_id s = i) (submissions st)")
    case None
    then have "\<And>r. bulk_row env st [i] r = r" by (simp add: bulk_row_def bulk_accepts_def)
    with None show ?thesis by (simp add: Cons.IH)
  next
    case (Some s)
    show ?thesis
    proof (cases "valid_grade (parseFloat (bulkGrade st)) (s_assignment_points s)")
      case None
      with Some have "\<And>r. bulk_row env st [i] r = r" by (simp add: bulk_row_def bulk_accepts_def)
      with None Some show ?thesis by (simp add: Cons.IH toast_error_rows)
    next
      case g: (Some g)
      have "\<And>r. bulk_row env st [i] r =
              (if as_id r = i \<and> grade_update_fault env i = None
               then graded_row env g (bulkFeedback st) r else r)"
        using Some g by (auto simp: bulk_row_def bulk_accepts_def split: option.splits)
      with Some g show ?thesis
        by (simp add: Cons.IH Let_def notify_graded_rows update_submission_rows)
    qed
  qed
  then show ?case by (simp add: step)
qed

section \<open>Properties of progress aggregation and the completion trigger\<close>

lemma completed_le_total:
  "length (completed_items content records student course) \<le> length (course_items content course)"
  by (simp add: completed_items_def)

lemma round_percentage_bounds:
  assumes "k \<le> n" and "0 < n"
  shows "0 \<le> round (rat_of_nat k / rat_of_nat n * 100) \<and>
         round (rat_of_nat k / rat_of_nat n * 100) \<le> 100"
proof -
  have a: "0 \<le> rat_of_nat k / rat_of_nat n * 100" by simp
  have "rat_of_nat k / rat_of_nat n \<le> 1" using assms by (simp add: divide_le_eq)
  then have "rat_of_nat k / rat_of_nat n * 100 \<le> 1 * 100"
    by (rule mult_right_mono) simp
  then have b: "rat_of_nat k / rat_of_nat n * 100 \<le> 100" by simp
  have lo: "0 \<le> round (rat_of_nat k / rat_of_nat n * 100)" using a by (simp add: round_def)
  have "round (rat_of_nat k / rat_of_nat n * 100) \<le> round (100::rat)" using b by (rule round_mono)
  then have hi: "round (rat_of_nat k / rat_of_nat n * 100) \<le> 100" by simp
  from lo hi show ?thesis by simp
qed

lemma round_percentage_int:
  assumes "0 < n"
  shows "round (rat_of_nat k / rat_of_nat n * 100) = (200 * int k + int n) div (2 * int n)"
proof -
  have "rat_of_nat k / rat_of_nat n * 100 + 1 / 2 =
          rat_of_int (200 * int k + int n) / rat_of_int (2 * int n)"
    using assms by (simp add: field_simps)
  then show ?thesis unfolding round_def by (simp only: floor_divide_of_int_eq)
qed

text \<open>
  Claim C1. For an enrollment whose course has \<open>N\<close> content items, \<open>K\<close> of them marked
  completed for the student, progress aggregation returns \<open>round (K / N * 100)\<close> when
  \<open>N > 0\<close> and \<open>0\<close> when \<open>N = 0\<close>, with no division by zero; the result is a percentage
  between 0 and 100.
\<close>

theorem progress_aggregation_rounds:
  assumes "length (course_items content course) = N"
    and "length (completed_items content records student course) = K"
  shows "progress_aggregation content records student course =
           (if N = 0 then 0 else round (rat_of_nat K / rat_of_nat N * 100)) \<and>
         0 \<le> progress_aggregation content records student course \<and>
         progress_aggregation content records student course \<le> 100"
proof (cases "N = 0")
  case True
  with assms show ?thesis by (simp add: progress_aggregation_def)
next
  case False
  from completed_le_total [of content records student course] assms have "K \<le> N" by simp
  with False round_percentage_bounds [of K N] assms show ?thesis
    by (simp add: progress_aggregation_def Let_def)
qed

text \<open>The statement of claim C1 on the example inputs.\<close>

theorem progress_aggregation_rounds_witness:
  "length (course_items ex_content ''math-s1'') = 4 \<and>
   length (completed_items ex_content (ex_records False) ''stu1'' ''math-s1'') = 3 \<and>
   progress_aggregation ex_content (ex_records False) ''stu1'' ''math-s1'' = 75 \<and>
   progress_aggregation ex_content (ex_records True) ''stu1'' ''math-s1'' = 100 \<and>
   progress_aggregation ex_content (ex_records True) ''stu1'' ''history'' = 0"
proof -
  have n: "length (course_items ex_content ''math-s1'') = 4"
    by (simp add: course_items_def ex_content_def)
  have k3: "length (completed_items ex_content (ex_records False) ''stu1'' ''math-s1'') = 3"
    by (simp add: completed_items_def course_items_def ex_content_def ex_records_def ex_record_def)
  have k4: "length (completed_items ex_content (ex_records True) ''stu1'' ''math-s1'') = 4"
    by (simp add: completed_items_def course_items_def ex_content_def ex_records_def ex_record_def)
  have n0: "length (course_items ex_content ''history'') = 0"
    by (simp add: course_items_def ex_content_def)
  have k0: "length (completed_items ex_content (ex_records True) ''stu1'' ''history'') = 0"
    by (simp add: completed_items_def course_items_def ex_content_def)
  from progress_aggregation_rounds [OF n k3] progress_aggregation_rounds [OF n k4]
    progress_aggregation_rounds [OF n0 k0] n k3
  show ?thesis by simp
qed

lemma completion_trigger_completed:
  "sc_completed e = Some True \<Longrightarrow> completion_trigger env p e = (None, e)"
  by (simp add: completion_trigger_def)

lemma aggregation_runs_completed:
  "sc_completed e = Some True \<Longrightarrow> aggregation_runs runs e = e"
proof (induction runs arbitrary: e)
  case Nil
  show ?case by simp
next
  case (Cons r runs)
  obtain env content records where r: "r = (env, content, records)" by (cases r) auto
  from Cons.prems have "aggregation_run env content records e = e"
    by (simp add: aggregation_run_def completion_trigger_completed)
  with Cons r show ?case by simp
qed

text \<open>
  Claim C2. When a run aggregates to 100 for an enrollment that is not completed (threshold
  100, the write succeeds), the trigger sets \<open>completed\<close> and stamps \<open>completed_at\<close> with
  the instant of that run; whatever aggregation runs follow, at whatever instant and
  with whatever result, they leave the enrollment, and so \<open>completed_at\<close>, as it is.
\<close>

theorem completion_set_once:
  assumes "sc_completed e \<noteq> Some True"
    and "threshold env = 100"
    and "write_fault env = None"
    and "progress_aggregation content records (sc_student_id e) (sc_subject_id e) = 100"
  shows "sc_completed (aggregation_run env content records e) = Some True \<and>
         sc_completed_at (aggregation_run env content records e) = Some (trigger_now env) \<and>
         (\<forall>runs. aggregation_runs runs (aggregation_run env content records e) =
                   aggregation_run env content records e)"
proof -
  from assms have fin: "sc_completed (aggregation_run env content records e) = Some True"
    and at: "sc_completed_at (aggregation_run env content records e) = Some (trigger_now env)"
    by (simp_all add: aggregation_run_def completion_trigger_def)
  from fin have "\<forall>runs. aggregation_runs runs (aggregation_run env content records e) =
                   aggregation_run env content records e"
    by (simp add: aggregation_runs_completed)
  with fin at show ?thesis by simp
qed

text \<open>The statement of claim C2 on the example inputs.\<close>

theorem completion_set_once_witness:
  "sc_completed ex_enrollment \<noteq> Some True \<and>
   progress_aggregation ex_content (ex_records True) (sc_student_id ex_enrollment)
     (sc_subject_id ex_enrollment) = 100 \<and>
   sc_completed (aggregation_run (ex_trigger_env ''t0'') ex_content (ex_records False) ex_enrollment)
     = Some False \<and>
   sc_completed_at
     (aggregation_runs
        [(ex_trigger_env ''t2'', ex_content, ex_records True),
         (ex_trigger_env ''t3'', ex_content, ex_records True)]
        (aggregation_run (ex_trigger_env ''t1'') ex_content (ex_records True) ex_enrollment))
     = Some ''t1''"
proof -
  have c: "sc_completed ex_enrollment \<noteq> Some True" by (simp add: ex_enrollment_def)
  have t: "threshold (ex_trigger_env ''t1'') = 100" and f: "write_fault (ex_trigger_env ''t1'') = None"
    by (simp_all add: ex_trigger_env_def)
  have n: "length (course_items ex_content ''math-s1'') = 4"
    by (simp add: course_items_def ex_content_def)
  have k3: "length (completed_items ex_content (ex_records False) ''stu1'' ''math-s1'') = 3"
    by (simp add: completed_items_def course_items_def ex_content_def ex_records_def ex_record_def)
  have k4: "length (completed_items ex_content (ex_records True) ''stu1'' ''math-s1'') = 4"
    by (simp add: completed_items_def course_items_def ex_content_def ex_records_def ex_record_def)
  have p3: "progress_aggregation ex_content (ex_records False) ''stu1'' ''math-s1'' = 75"
    using n k3 by (simp add: progress_aggregation_def)
  have p: "progress_aggregation ex_content (ex_records True) (sc_student_id ex_enrollment)
             (sc_subject_id ex_enrollment) = 100"
    using n k4 by (simp add: progress_aggregation_def ex_enrollment_def)
  have before: "sc_completed (aggregation_run (ex_trigger_env ''t0'') ex_content (ex_records False)
                  ex_enrollment) = Some False"
    using p3 by (simp add: aggregation_run_def completion_trigger_def ex_enrollment_def
        ex_trigger_env_def)
  from completion_set_once [OF c t f p] c p before show ?thesis
    by (simp add: ex_trigger_env_def)
qed

section \<open>The properties on the example inputs\<close>

lemma ex_fileName:
  "fileName (ex_cert_env 1000 a b) ex_cert = ''certificate-Mathematics-S1-1000.pdf''"
  "fileName (ex_cert_env 2000 a b) ex_cert = ''certificate-Mathematics-S1-2000.pdf''"
  by (simp_all add: fileName_def ex_cert_env_def ex_cert_def is_space_def show_nat.simps
      digit_char_def)

text \<open>The statement of claim C7 on the example inputs.\<close>

theorem regeneration_last_write_wins_witness:
  "(\<exists>w1 w2.
      generateCertificate (ex_cert_env 1000 None None) ex_cert ex_world =
        (Inr (Some ''https://files.example/certificates/stu1/certificate-Mathematics-S1-1000.pdf''),
         w1) \<and>
      generateCertificate (ex_cert_env 2000 None None) ex_cert w1 =
        (Inr (Some ''https://files.example/certificates/stu1/certificate-Mathematics-S1-2000.pdf''),
         w2) \<and>
      map fst (storage w2) =
        [''certificates/stu1/certificate-Mathematics-S1-1000.pdf'',
         ''certificates/stu1/certificate-Mathematics-S1-2000.pdf''] \<and>
      map sc_certificate_url (student_courses w2) =
        [Some ''https://files.example/certificates/stu1/certificate-Mathematics-S1-2000.pdf''])"
proof -
  let ?e1 = "ex_cert_env 1000 None None" and ?e2 = "ex_cert_env 2000 None None"
  let ?w1 = "snd (generateCertificate ?e1 ex_cert ex_world)"
  let ?w2 = "snd (generateCertificate ?e2 ex_cert ?w1)"
  let ?u1 = "''https://files.example/certificates/stu1/certificate-Mathematics-S1-1000.pdf''"
  let ?u2 = "''https://files.example/certificates/stu1/certificate-Mathematics-S1-2000.pdf''"
  have k: "studentId ex_cert = ''stu1''" "courseId ex_cert = ''math-s1''"
    by (simp_all add: ex_cert_def)
  have u: "\<And>t x. getPublicUrl (ex_cert_env t None None) x = ''https://files.example/'' @ x"
    by (simp add: ex_cert_env_def)
  have f: "\<And>t. update_fault (ex_cert_env t None None) = None"
          "\<And>t. upload_fault (ex_cert_env t None None) = None"
    by (simp_all add: ex_cert_env_def)
  have up1: "fst (storage_upload ?e1 (certificate_path (studentId ex_cert) (fileName ?e1 ex_cert))
                    (render ?e1 ex_cert) ex_world) = None"
    by (simp add: storage_upload_ok_iff f) (simp add: ex_world_def)
  note r1 = generateCertificate_succeeded [OF up1 f(1)]
  have s1: "storage ?w1 = [(''certificates/stu1/certificate-Mathematics-S1-1000.pdf'',
                            render ?e1 ex_cert)]"
    by (simp add: r1 toast_success_def pdf_save_def ex_fileName k certificate_path_def)
       (simp add: ex_world_def)
  have up2: "fst (storage_upload ?e2 (certificate_path (studentId ex_cert) (fileName ?e2 ex_cert))
                    (render ?e2 ex_cert) ?w1) = None"
    by (simp add: storage_upload_ok_iff f s1 ex_fileName k certificate_path_def)
  note r2 = generateCertificate_succeeded [OF up2 f(1)]
  have run1: "generateCertificate ?e1 ex_cert ex_world = (Inr (Some ?u1), ?w1)"
    by (simp add: r1 u ex_fileName k certificate_path_def)
  have run2: "generateCertificate ?e2 ex_cert ?w1 = (Inr (Some ?u2), ?w2)"
    by (simp add: r2 u ex_fileName k certificate_path_def)
  have rows1: "student_courses ?w1 = [ex_enrollment\<lparr>sc_certificate_url := Some ?u1\<rparr>]"
    by (simp add: r1 toast_success_def pdf_save_def)
       (simp add: ex_world_def ex_enrollment_def u ex_fileName k certificate_path_def)
  have rows2: "map sc_certificate_url (student_courses ?w2) = [Some ?u2]"
    by (simp add: r2 toast_success_def pdf_save_def rows1)
       (simp add: ex_enrollment_def u ex_fileName k certificate_path_def)
  from regeneration_last_write_wins [OF refl refl run1 run2]
  have "storage ?w2 = storage ex_world @
           [(certificate_path (studentId ex_cert) (fileName ?e1 ex_cert), render ?e1 ex_cert),
            (certificate_path (studentId ex_cert) (fileName ?e2 ex_cert), render ?e2 ex_cert)]"
    by simp
  then have st: "map fst (storage ?w2) =
        [''certificates/stu1/certificate-Mathematics-S1-1000.pdf'',
         ''certificates/stu1/certificate-Mathematics-S1-2000.pdf'']"
    by (simp add: ex_fileName k certificate_path_def) (simp add: ex_world_def)
  show ?thesis
    by (rule exI [of _ ?w1], rule exI [of _ ?w2], intro conjI)
       (fact run1, fact run2, fact st, fact rows2)
qed

text \<open>The statement of claim C6 on the example inputs.\<close>

theorem upload_failure_keeps_database_witness:
  "fst (storage_upload (ex_cert_env 1000 (Some StorageFault) None)
          (certificate_path (studentId ex_cert)
             (fileName (ex_cert_env 1000 (Some StorageFault) None) ex_cert))
          (render (ex_cert_env 1000 (Some StorageFault) None) ex_cert) ex_world)
     = Some StorageFault \<and>
   fst (generateCertificate (ex_cert_env 1000 (Some StorageFault) None) ex_cert ex_world)
     = Inr None \<and>
   student_courses
     (snd (generateCertificate (ex_cert_env 1000 (Some StorageFault) None) ex_cert ex_world))
     = [ex_enrollment] \<and>
   map fst (downloads
     (snd (generateCertificate (ex_cert_env 1000 (Some StorageFault) None) ex_cert ex_world)))
     = [''certificate-Mathematics-S1-1000.pdf'']"
proof -
  let ?env = "ex_cert_env 1000 (Some StorageFault) None"
  have h: "fst (storage_upload ?env (certificate_path (studentId ex_cert) (fileName ?env ex_cert))
                  (render ?env ex_cert) ex_world) = Some StorageFault"
    by (simp add: storage_upload_def ex_cert_env_def)
  have n: "fileName ?env ex_cert = ''certificate-Mathematics-S1-1000.pdf''"
    by (simp add: fileName_def ex_cert_env_def ex_cert_def is_space_def show_nat.simps
        digit_char_def)
  from upload_failure_keeps_database [OF h] h n show ?thesis
    by (simp add: ex_world_def)
qed

text \<open>The statement of claim C10 on the example inputs.\<close>

theorem generateCertificate_never_throws_witness:
  "fst (generateCertificate (ex_cert_env 1000 None None) ex_cert ex_world) =
     Inr (Some ''https://files.example/certificates/stu1/certificate-Mathematics-S1-1000.pdf'') \<and>
   fst (generateCertificate (ex_cert_env 1000 None (Some DatabaseFault)) ex_cert ex_world) =
     Inr None \<and>
   fst (generateCertificate (ex_cert_env 1000 (Some StorageFault) None) ex_cert ex_world) =
     Inr None \<and>
   length (downloads (snd (generateCertificate (ex_cert_env 1000 None None) ex_cert ex_world)))
     = 1 \<and>
   length (downloads
     (snd (generateCertificate (ex_cert_env 1000 None (Some DatabaseFault)) ex_cert ex_world)))
     = 1"
proof -
  have n: "\<And>a b. fileName (ex_cert_env 1000 a b) ex_cert = ''certificate-Mathematics-S1-1000.pdf''"
    by (simp add: fileName_def ex_cert_env_def ex_cert_def is_space_def show_nat.simps
        digit_char_def)
  have up: "\<And>a b p. fst (storage_upload (ex_cert_env 1000 a b) p
                (render (ex_cert_env 1000 a b) ex_cert) ex_world) = a"
    by (simp add: storage_upload_def ex_cert_env_def ex_world_def split: option.splits)
  have f: "\<And>a b. update_fault (ex_cert_env 1000 a b) = b"
       "\<And>a b p. getPublicUrl (ex_cert_env 1000 a b) p = ''https://files.example/'' @ p"
    by (simp_all add: ex_cert_env_def)
  have d: "downloads ex_world = []" "studentId ex_cert = ''stu1''"
    by (simp_all add: ex_world_def ex_cert_def)
  from generateCertificate_never_throws [of "ex_cert_env 1000 None None" ex_cert ex_world]
    generateCertificate_never_throws [of "ex_cert_env 1000 None (Some DatabaseFault)" ex_cert ex_world]
    generateCertificate_never_throws [of "ex_cert_env 1000 (Some StorageFault) None" ex_cert ex_world]
  show ?thesis
    by (auto simp: n up f d certificate_path_def)
qed

text \<open>The statement of claim C8 on the example inputs.\<close>

theorem generateCertificate_ignores_completed_witness:
  "map sc_completed (student_courses ex_world) = [Some False] \<and>
   fst (generateCertificate (ex_cert_env 1000 None None) ex_cert ex_world) =
     Inr (Some ''https://files.example/certificates/stu1/certificate-Mathematics-S1-1000.pdf'') \<and>
   map sc_certificate_url
     (student_courses (snd (generateCertificate (ex_cert_env 1000 None None) ex_cert ex_world))) =
     [Some ''https://files.example/certificates/stu1/certificate-Mathematics-S1-1000.pdf''] \<and>
   generateCertificate (ex_cert_env 1000 None None) ex_cert
     (with_completion (\<lambda>i. (Some True, Some ''2025-11-20'')) ex_world) =
     (fst (generateCertificate (ex_cert_env 1000 None None) ex_cert ex_world),
      with_completion (\<lambda>i. (Some True, Some ''2025-11-20''))
        (snd (generateCertificate (ex_cert_env 1000 None None) ex_cert ex_world)))"
proof -
  let ?env = "ex_cert_env 1000 None None"
  have n: "fileName ?env ex_cert = ''certificate-Mathematics-S1-1000.pdf''"
    by (simp add: fileName_def ex_cert_env_def ex_cert_def is_space_def show_nat.simps
        digit_char_def)
  have up: "fst (storage_upload ?env (certificate_path (studentId ex_cert) (fileName ?env ex_cert))
                   (render ?env ex_cert) ex_world) = None"
    by (simp add: storage_upload_def ex_cert_env_def ex_world_def)
  have f: "update_fault ?env = None" by (simp add: ex_cert_env_def)
  have p: "certificate_path (studentId ex_cert) (fileName ?env ex_cert) =
             ''certificates/stu1/certificate-Mathematics-S1-1000.pdf''"
    by (simp add: n certificate_path_def) (simp add: ex_cert_def)
  have u: "\<And>x. getPublicUrl ?env x = ''https://files.example/'' @ x"
    by (simp add: ex_cert_env_def)
  have k: "studentId ex_cert = ''stu1''" "courseId ex_cert = ''math-s1''"
    by (simp_all add: ex_cert_def)
  have run: "fst (generateCertificate ?env ex_cert ex_world) =
     Inr (Some ''https://files.example/certificates/stu1/certificate-Mathematics-S1-1000.pdf'')"
    by (simp add: generateCertificate_succeeded [OF up f] p u)
  have rows: "map sc_certificate_url (student_courses (snd (generateCertificate ?env ex_cert ex_world)))
     = [Some ''https://files.example/certificates/stu1/certificate-Mathematics-S1-1000.pdf'']"
    by (simp add: generateCertificate_succeeded [OF up f] toast_success_def pdf_save_def)
       (simp add: ex_world_def ex_enrollment_def p [unfolded k] u k)
  have c: "map sc_completed (student_courses ex_world) = [Some False]"
    by (simp add: ex_world_def ex_enrollment_def)
  from generateCertificate_ignores_completed
         [of ?env ex_cert "\<lambda>i. (Some True, Some ''2025-11-20'')" ex_world] run rows c
  show ?thesis by simp
qed

text \<open>The statement of claim C9 on the example inputs.\<close>

theorem handleDrop_deletes_row_witness:
  "user ex_drop_env = Some ''stu1'' \<and> delete_fault ex_drop_env = None \<and>
   map sc_progress (student_courses ex_world) = [Some 40] \<and>
   student_courses (snd (handleDrop ex_drop_env ''math-s1'' \<lparr>enrolledCourses = {''math-s1''}\<rparr>
                           ex_world)) = [] \<and>
   toasts (snd (handleDrop ex_drop_env ''math-s1'' \<lparr>enrolledCourses = {''math-s1''}\<rparr> ex_world))
     = [ToastSuccess ''Dropped course (your progress is saved!)''] \<and>
   handleDrop ex_drop_env ''math-s1'' \<lparr>enrolledCourses = {''math-s1''}\<rparr>
     (ex_world\<lparr>student_courses := [ex_enrollment\<lparr>sc_progress := Some 90\<rparr>]\<rparr>) =
   handleDrop ex_drop_env ''math-s1'' \<lparr>enrolledCourses = {''math-s1''}\<rparr> ex_world"
proof -
  have u: "user ex_drop_env = Some ''stu1''" and f: "delete_fault ex_drop_env = None"
    by (simp_all add: ex_drop_env_def)
  from handleDrop_deletes_row [OF u f, of "''math-s1''" "\<lparr>enrolledCourses = {''math-s1''}\<rparr>" ex_world]
    u f
  show ?thesis
    by (simp add: ex_world_def ex_enrollment_def toast_success_def)
qed

lemma ex_world_fields:
  "student_courses ex_world = [ex_enrollment]"
  "assignment_submissions ex_world =
     [ex_row ''sub1'' ''a1'' ''stu1'' 10, ex_row ''sub2'' ''a2'' ''stu2'' 20]"
  "notifications ex_world = []" "storage ex_world = []" "downloads ex_world = []"
  "toasts ex_world = []" "console ex_world = []"
  "a_points (assignment_of ex_world ''a1'') = 10" "a_points (assignment_of ex_world ''a2'') = 5"
  "full_name_of ex_world ''stu1'' = ''Aline''" "full_name_of ex_world ''stu2'' = ''Eric''"
  by (simp_all add: ex_world_def)

lemma ex_row_fields:
  "as_id (ex_row i a u t) = i" "as_assignment_id (ex_row i a u t) = a"
  "as_student_id (ex_row i a u t) = u" "as_submitted_at (ex_row i a u t) = Some t"
  "as_grade (ex_row i a u t) = None" "as_feedback (ex_row i a u t) = None"
  "as_graded_at (ex_row i a u t) = None" "as_graded_by (ex_row i a u t) = None"
  "as_status (ex_row i a u t) = Some ''submitted''"
  by (simp_all add: ex_row_def)

lemma ex_query:
  "query_submitted ex_world =
     [select_submission ex_world (ex_row ''sub1'' ''a1'' ''stu1'' 10),
      select_submission ex_world (ex_row ''sub2'' ''a2'' ''stu2'' 20)]"
  by (simp add: query_submitted_def order_by_submitted_def ex_world_fields ex_row_fields)

lemma ex_fetch:
  "fetchSubmissions ex_grading_env st ex_world =
     (st\<lparr>submissions := query_submitted ex_world, loading := False\<rparr>, ex_world)"
  by (simp add: fetchSubmissions_def ex_grading_env_def)

lemma ex_dialog_state:
  "ex_dialog typed =
     ex_state\<lparr>submissions := query_submitted ex_world, loading := False,
              selectedSubmission := Some (select_submission ex_world (ex_row ''sub1'' ''a1'' ''stu1'' 10)),
              grade := typed, feedback := ''Well done''\<rparr>"
  by (simp add: ex_dialog_def ex_fetch ex_query openGradingDialog_def ex_state_def)

lemma ex_selected:
  "selectedSubmission (ex_dialog typed) =
     Some (select_submission ex_world (ex_row ''sub1'' ''a1'' ''stu1'' 10))"
  "grade (ex_dialog typed) = typed"
  "feedback (ex_dialog typed) = ''Well done''"
  by (simp_all add: ex_dialog_state ex_state_def)

lemma ex_selected_fields:
  "s_id (select_submission ex_world (ex_row ''sub1'' ''a1'' ''stu1'' 10)) = ''sub1''"
  "s_assignment_points (select_submission ex_world (ex_row ''sub1'' ''a1'' ''stu1'' 10)) = 10"
  "s_student_id (select_submission ex_world (ex_row ''sub1'' ''a1'' ''stu1'' 10)) = None"
  by (simp_all add: select_submission_def ex_row_fields ex_world_fields)

lemmas parse_defs = parseFloat_def parse_unsigned_def is_space_def is_digit_def starts_with_def
  digits_val_def js_negate_def apply_exponent_def

lemma ex_double:
  "to_double 0 = Num 0" "to_double 1 = Num 1" "to_double 5 = Num 5" "to_double 8 = Num 8"
  "to_double 10 = Num 10" "to_double 11 = Num 11"
  using to_double_int [of 0] to_double_int [of 1] to_double_int [of 5] to_double_int [of 8]
    to_double_int [of 10] to_double_int [of 11]
  by simp_all

lemma ex_parse:
  "parseFloat ''-1'' = Num (- 1)" "parseFloat ''11'' = Num 11"
  "parseFloat ''0'' = Num 0" "parseFloat ''10'' = Num 10" "parseFloat ''8'' = Num 8"
  "parseFloat ''-5'' = Num (- 5)"
  by (simp_all add: parse_defs ex_double)









lemma ex_env_fields:
  "grade_update_fault ex_grading_env i = None"
  "notify_fault ex_grading_env i = None"
  "session ex_grading_env = Some ''teacher1''"
  "date_now ex_grading_env i = 1000"
  "number_text ex_grading_env 10 = ''10''"
  "fetch_fault ex_grading_env = None"
  by (simp_all add: ex_grading_env_def show_nat.simps digit_char_def)







text \<open>
  Claim C4, on the example queue: the teacher grades the first submission (student
  \<open>stu1\<close>, 10 points) with 8. The row gets the grade, the feedback, the status
  \<open>graded\<close>, the instant and the grader's id, and the success toast is shown; but no
  notification row is inserted, because the fetched submission has no \<open>student_id\<close>.
\<close>

theorem submitGrade_notification_not_inserted:
  "map (\<lambda>r. (as_id r, as_grade r, as_feedback r, as_status r, as_graded_at r, as_graded_by r))
     (assignment_submissions (snd (submitGrade ex_grading_env (ex_dialog ''8'') ex_world))) =
     [(''sub1'', Some 8, Some ''Well done'', Some ''graded'', Some 1000, Some ''teacher1''),
      (''sub2'', None, None, Some ''submitted'', None, None)] \<and>
   toasts (snd (submitGrade ex_grading_env (ex_dialog ''8'') ex_world)) =
     [ToastSuccess ''Grade submitted successfully''] \<and>
   map as_student_id (assignment_submissions ex_world) = [''stu1'', ''stu2''] \<and>
   notifications (snd (submitGrade ex_grading_env (ex_dialog ''8'') ex_world)) = []"
proof -
  let ?sel = "select_submission ex_world (ex_row ''sub1'' ''a1'' ''stu1'' 10)"
  have v: "valid_grade (parseFloat (grade (ex_dialog ''8''))) (s_assignment_points ?sel) = Some 8"
    by (simp add: ex_selected ex_selected_fields ex_parse valid_grade_Num)
  note acc = submitGrade_accepts [OF ex_selected(1) v ex_env_fields(1)]
  have rows: "map (\<lambda>r. (as_id r, as_grade r, as_feedback r, as_status r, as_graded_at r,
                         as_graded_by r))
     (assignment_submissions (snd (submitGrade ex_grading_env (ex_dialog ''8'') ex_world))) =
     [(''sub1'', Some 8, Some ''Well done'', Some ''graded'', Some 1000, Some ''teacher1''),
      (''sub2'', None, None, Some ''submitted'', None, None)]"
    by (simp add: submitGrade_writes_row [OF ex_selected(1) v ex_env_fields(1)]
        ex_selected ex_selected_fields ex_env_fields ex_world_fields ex_row_fields)
  have t: "toasts (snd (submitGrade ex_grading_env (ex_dialog ''8'') ex_world)) =
     [ToastSuccess ''Grade submitted successfully'']"
    by (simp add: acc ex_selected ex_selected_fields ex_env_fields fetchSubmissions_def
        notify_graded_undefined toast_success_def update_submission_def ex_world_fields
        ex_row_fields)
  have n: "notifications (snd (submitGrade ex_grading_env (ex_dialog ''8'') ex_world)) = []"
    by (simp add: submitGrade_no_notification [OF ex_selected(1) ex_selected_fields(3)]
        ex_world_fields)
  have s: "map as_student_id (assignment_submissions ex_world) = [''stu1'', ''stu2'']"
    by (simp add: ex_world_fields ex_row_fields)
  from rows t s n show ?thesis by (intro conjI)
qed

lemma ex_bulk_state:
  "ex_bulk typed =
     ex_state\<lparr>submissions := query_submitted ex_world, loading := False,
              selectedSubmissions := [''sub1'', ''sub2''],
              bulkGrade := typed, bulkFeedback := ''ok''\<rparr>"
  by (simp add: ex_bulk_def ex_fetch toggleSubmissionSelection_def ex_state_def Let_def)

text \<open>
  Claim C5, on the example queue: both submissions are ticked (10 and 5 points) and the
  bulk grade is 8. The first row is graded, the second is reported and left as it was,
  the batch goes on; but no notification row is inserted for the graded item, because
  the fetched submissions have no \<open>student_id\<close>.
\<close>

theorem handleBulkGrade_notifications_not_inserted:
  "selectedSubmissions (ex_bulk ''8'') = [''sub1'', ''sub2''] \<and>
   map s_assignment_points (submissions (ex_bulk ''8'')) = [10, 5] \<and>
   map (\<lambda>r. (as_id r, as_grade r, as_feedback r, as_status r))
     (assignment_submissions (snd (handleBulkGrade ex_grading_env (ex_bulk ''8'') ex_world))) =
     [(''sub1'', Some 8, Some ''ok'', Some ''graded''),
      (''sub2'', None, None, Some ''submitted'')] \<and>
   toasts (snd (handleBulkGrade ex_grading_env (ex_bulk ''8'') ex_world)) =
     [ToastError ''Invalid grade for Eric'', ToastSuccess ''Graded 2 submissions''] \<and>
   notifications (snd (handleBulkGrade ex_grading_env (ex_bulk ''8'') ex_world)) = []"
proof -
  have sel: "selectedSubmissions (ex_bulk ''8'') = [''sub1'', ''sub2'']"
    and bg: "bulkGrade (ex_bulk ''8'') = ''8''" and bf: "bulkFeedback (ex_bulk ''8'') = ''ok''"
    and subs: "submissions (ex_bulk ''8'') = query_submitted ex_world"
    by (simp_all add: ex_bulk_state ex_state_def)
  have pts: "map s_assignment_points (submissions (ex_bulk ''8'')) = [10, 5]"
    by (simp add: subs ex_query select_submission_def ex_row_fields ex_world_fields)
  have loop: "bulk_loop ex_grading_env (ex_bulk ''8'') [''sub1'', ''sub2''] ex_world =
     toast_error ''Invalid grade for Eric''
       (snd (update_submission ex_grading_env ''sub1'' 8 ''ok'' ex_world))"
    by (simp add: subs bg bf ex_query ex_parse valid_grade_Num Let_def notify_graded_undefined
        select_submission_def ex_row_fields ex_world_fields)
  have run: "handleBulkGrade ex_grading_env (ex_bulk ''8'') ex_world =
     fetchSubmissions ex_grading_env
       ((ex_bulk ''8'')\<lparr>selectedSubmissions := [], bulkGrade := [], bulkFeedback := [],
                        grading := False\<rparr>)
       (toast_success ''Graded 2 submissions''
          (toast_error ''Invalid grade for Eric''
             (snd (update_submission ex_grading_env ''sub1'' 8 ''ok'' ex_world))))"
    by (simp add: handleBulkGrade_def sel bg loop Let_def show_nat.simps digit_char_def
        del: bulk_loop.simps)
  have rows: "map (\<lambda>r. (as_id r, as_grade r, as_feedback r, as_status r))
     (assignment_submissions (snd (handleBulkGrade ex_grading_env (ex_bulk ''8'') ex_world))) =
     [(''sub1'', Some 8, Some ''ok'', Some ''graded''),
      (''sub2'', None, None, Some ''submitted'')]"
    by (simp add: run fetchSubmissions_world toast_success_def toast_error_def
        update_submission_def ex_env_fields ex_world_fields ex_row_fields)
  have t: "toasts (snd (handleBulkGrade ex_grading_env (ex_bulk ''8'') ex_world)) =
     [ToastError ''Invalid grade for Eric'', ToastSuccess ''Graded 2 submissions'']"
    by (simp add: run fetchSubmissions_def toast_success_def toast_error_def
        update_submission_def ex_env_fields ex_world_fields ex_row_fields)
  have n: "notifications (snd (handleBulkGrade ex_grading_env (ex_bulk ''8'') ex_world)) = []"
    by (simp add: run fetchSubmissions_world toast_success_def toast_error_def
        update_submission_def ex_env_fields ex_world_fields)
  from sel pts rows t n show ?thesis by (intro conjI)
qed

end
